theory Spec2Isabelle
  imports
    Complex_Main
    "HOL-Library.List_Lexorder"
    "HOL-Library.Product_Lexorder"
    "HOL-Library.Multiset"
begin

section \<open>Strings\<close>

text \<open>
  A JavaScript string is modelled by the list of its code points, a surrogate pair being
  one code point; \<open>jsLength\<close> is its \<^verbatim>\<open>length\<close>, which counts a code point beyond the basic
  plane twice. \<open>str\<close> turns a literal of the source into such a list. The texts of error
  messages stay literals.

  \<^verbatim>\<open>String.prototype.trim\<close> removes white space and line terminators from both ends: TAB,
  LF, VT, FF, CR, SPACE, U+00A0, U+FEFF, U+2028, U+2029 and the space separators of
  Unicode. \<^verbatim>\<open>toUpperCase\<close> replaces each code point by its full upper-case mapping, which
  can be several code points (U+00DF becomes \<^verbatim>\<open>SS\<close>). The mapping is the one of Unicode
  14.0: \<open>upperRanges\<close> lists the runs of code points that map to single code points, as
  (first, last, stride, image of the first), and \<open>upperSpecial\<close> the code points that map
  to more than one.
\<close>

type_synonym jsString = "int list"

definition str :: "string \<Rightarrow> jsString" where
  "str s = map of_char s"

definition jsLength :: "jsString \<Rightarrow> nat" where
  "jsLength s = sum_list (map (\<lambda>c. if 65536 \<le> c then 2 else 1) s)"

definition isWhiteSpace :: "int \<Rightarrow> bool" where
  "isWhiteSpace c =
     (c \<in> set [9, 10, 11, 12, 13, 32, 160, 5760, 8192, 8193, 8194, 8195, 8196, 8197, 8198,
                8199, 8200, 8201, 8202, 8232, 8233, 8239, 8287, 12288, 65279])"

definition trim :: "jsString \<Rightarrow> jsString" where
  "trim s = rev (dropWhile isWhiteSpace (rev (dropWhile isWhiteSpace s)))"

definition upperRanges :: "(int \<times> int \<times> int \<times> int) list" where
  "upperRanges =
   [
    (181, 181, 1, 924), (224, 246, 1, 192), (248, 254, 1, 216), (255, 255, 1, 376),
    (257, 303, 2, 256), (305, 305, 1, 73), (307, 311, 2, 306), (314, 328, 2, 313),
    (331, 375, 2, 330), (378, 382, 2, 377), (383, 383, 1, 83), (384, 384, 1, 579),
    (387, 389, 2, 386), (392, 392, 1, 391), (396, 396, 1, 395), (402, 402, 1, 401),
    (405, 405, 1, 502), (409, 409, 1, 408), (410, 410, 1, 573), (414, 414, 1, 544),
    (417, 421, 2, 416), (424, 424, 1, 423), (429, 429, 1, 428), (432, 432, 1, 431),
    (436, 438, 2, 435), (441, 441, 1, 440), (445, 445, 1, 444), (447, 447, 1, 503),
    (453, 453, 1, 452), (454, 454, 1, 452), (456, 456, 1, 455), (457, 457, 1, 455),
    (459, 459, 1, 458), (460, 460, 1, 458), (462, 476, 2, 461), (477, 477, 1, 398),
    (479, 495, 2, 478), (498, 498, 1, 497), (499, 499, 1, 497), (501, 501, 1, 500),
    (505, 543, 2, 504), (547, 563, 2, 546), (572, 572, 1, 571), (575, 576, 1, 11390),
    (578, 578, 1, 577), (583, 591, 2, 582), (592, 592, 1, 11375), (593, 593, 1, 11373),
    (594, 594, 1, 11376), (595, 595, 1, 385), (596, 596, 1, 390), (598, 599, 1, 393),
    (601, 601, 1, 399), (603, 603, 1, 400), (604, 604, 1, 42923), (608, 608, 1, 403),
    (609, 609, 1, 42924), (611, 611, 1, 404), (613, 613, 1, 42893), (614, 614, 1, 42922),
    (616, 616, 1, 407), (617, 617, 1, 406), (618, 618, 1, 42926), (619, 619, 1, 11362),
    (620, 620, 1, 42925), (623, 623, 1, 412), (625, 625, 1, 11374), (626, 626, 1, 413),
    (629, 629, 1, 415), (637, 637, 1, 11364), (640, 640, 1, 422), (642, 642, 1, 42949),
    (643, 643, 1, 425), (647, 647, 1, 42929), (648, 648, 1, 430), (649, 649, 1, 580),
    (650, 651, 1, 433), (652, 652, 1, 581), (658, 658, 1, 439), (669, 669, 1, 42930),
    (670, 670, 1, 42928), (837, 837, 1, 921), (881, 883, 2, 880), (887, 887, 1, 886),
    (891, 893, 1, 1021), (940, 940, 1, 902), (941, 943, 1, 904), (945, 961, 1, 913),
    (962, 962, 1, 931), (963, 971, 1, 931), (972, 972, 1, 908), (973, 974, 1, 910),
    (976, 976, 1, 914), (977, 977, 1, 920), (981, 981, 1, 934), (982, 982, 1, 928),
    (983, 983, 1, 975), (985, 1007, 2, 984), (1008, 1008, 1, 922), (1009, 1009, 1, 929),
    (1010, 1010, 1, 1017), (1011, 1011, 1, 895), (1013, 1013, 1, 917), (1016, 1016, 1, 1015),
    (1019, 1019, 1, 1018), (1072, 1103, 1, 1040), (1104, 1119, 1, 1024), (1121, 1153, 2, 1120),
    (1163, 1215, 2, 1162), (1218, 1230, 2, 1217), (1231, 1231, 1, 1216), (1233, 1327, 2, 1232),
    (1377, 1414, 1, 1329), (4304, 4346, 1, 7312), (4349, 4351, 1, 7357), (5112, 5117, 1, 5104),
    (7296, 7296, 1, 1042), (7297, 7297, 1, 1044), (7298, 7298, 1, 1054), (7299, 7300, 1, 1057),
    (7301, 7301, 1, 1058), (7302, 7302, 1, 1066), (7303, 7303, 1, 1122),
    (7304, 7304, 1, 42570), (7545, 7545, 1, 42877), (7549, 7549, 1, 11363),
    (7566, 7566, 1, 42950), (7681, 7829, 2, 7680), (7835, 7835, 1, 7776),
    (7841, 7935, 2, 7840), (7936, 7943, 1, 7944), (7952, 7957, 1, 7960), (7968, 7975, 1, 7976),
    (7984, 7991, 1, 7992), (8000, 8005, 1, 8008), (8017, 8023, 2, 8025), (8032, 8039, 1, 8040),
    (8048, 8049, 1, 8122), (8050, 8053, 1, 8136), (8054, 8055, 1, 8154), (8056, 8057, 1, 8184),
    (8058, 8059, 1, 8170), (8060, 8061, 1, 8186), (8112, 8113, 1, 8120), (8126, 8126, 1, 921),
    (8144, 8145, 1, 8152), (8160, 8161, 1, 8168), (8165, 8165, 1, 8172), (8526, 8526, 1, 8498),
    (8560, 8575, 1, 8544), (8580, 8580, 1, 8579), (9424, 9449, 1, 9398),
    (11312, 11359, 1, 11264), (11361, 11361, 1, 11360), (11365, 11365, 1, 570),
    (11366, 11366, 1, 574), (11368, 11372, 2, 11367), (11379, 11379, 1, 11378),
    (11382, 11382, 1, 11381), (11393, 11491, 2, 11392), (11500, 11502, 2, 11499),
    (11507, 11507, 1, 11506), (11520, 11557, 1, 4256), (11559, 11559, 1, 4295),
    (11565, 11565, 1, 4301), (42561, 42605, 2, 42560), (42625, 42651, 2, 42624),
    (42787, 42799, 2, 42786), (42803, 42863, 2, 42802), (42874, 42876, 2, 42873),
    (42879, 42887, 2, 42878), (42892, 42892, 1, 42891), (42897, 42899, 2, 42896),
    (42900, 42900, 1, 42948), (42903, 42921, 2, 42902), (42933, 42947, 2, 42932),
    (42952, 42954, 2, 42951), (42961, 42961, 1, 42960), (42967, 42969, 2, 42966),
    (42998, 42998, 1, 42997), (43859, 43859, 1, 42931), (43888, 43967, 1, 5024),
    (65345, 65370, 1, 65313), (66600, 66639, 1, 66560), (66776, 66811, 1, 66736),
    (66967, 67003, 2, 66928), (66968, 66977, 1, 66929), (66979, 66993, 1, 66940),
    (66995, 67001, 1, 66956), (67003, 67004, 1, 66964), (68800, 68850, 1, 68736),
    (71872, 71903, 1, 71840), (93792, 93823, 1, 93760), (125218, 125251, 1, 125184)
   ]"

definition upperSpecial :: "(int \<times> int list) list" where
  "upperSpecial =
   [
    (223, [83, 83]), (329, [700, 78]), (496, [74, 780]), (912, [921, 776, 769]),
    (944, [933, 776, 769]), (1415, [1333, 1362]), (7830, [72, 817]), (7831, [84, 776]),
    (7832, [87, 778]), (7833, [89, 778]), (7834, [65, 702]), (8016, [933, 787]),
    (8018, [933, 787, 768]), (8020, [933, 787, 769]), (8022, [933, 787, 834]),
    (8064, [7944, 921]), (8065, [7945, 921]), (8066, [7946, 921]), (8067, [7947, 921]),
    (8068, [7948, 921]), (8069, [7949, 921]), (8070, [7950, 921]), (8071, [7951, 921]),
    (8072, [7944, 921]), (8073, [7945, 921]), (8074, [7946, 921]), (8075, [7947, 921]),
    (8076, [7948, 921]), (8077, [7949, 921]), (8078, [7950, 921]), (8079, [7951, 921]),
    (8080, [7976, 921]), (8081, [7977, 921]), (8082, [7978, 921]), (8083, [7979, 921]),
    (8084, [7980, 921]), (8085, [7981, 921]), (8086, [7982, 921]), (8087, [7983, 921]),
    (8088, [7976, 921]), (8089, [7977, 921]), (8090, [7978, 921]), (8091, [7979, 921]),
    (8092, [7980, 921]), (8093, [7981, 921]), (8094, [7982, 921]), (8095, [7983, 921]),
    (8096, [8040, 921]), (8097, [8041, 921]), (8098, [8042, 921]), (8099, [8043, 921]),
    (8100, [8044, 921]), (8101, [8045, 921]), (8102, [8046, 921]), (8103, [8047, 921]),
    (8104, [8040, 921]), (8105, [8041, 921]), (8106, [8042, 921]), (8107, [8043, 921]),
    (8108, [8044, 921]), (8109, [8045, 921]), (8110, [8046, 921]), (8111, [8047, 921]),
    (8114, [8122, 921]), (8115, [913, 921]), (8116, [902, 921]), (8118, [913, 834]),
    (8119, [913, 834, 921]), (8124, [913, 921]), (8130, [8138, 921]), (8131, [919, 921]),
    (8132, [905, 921]), (8134, [919, 834]), (8135, [919, 834, 921]), (8140, [919, 921]),
    (8146, [921, 776, 768]), (8147, [921, 776, 769]), (8150, [921, 834]),
    (8151, [921, 776, 834]), (8162, [933, 776, 768]), (8163, [933, 776, 769]),
    (8164, [929, 787]), (8166, [933, 834]), (8167, [933, 776, 834]), (8178, [8186, 921]),
    (8179, [937, 921]), (8180, [911, 921]), (8182, [937, 834]), (8183, [937, 834, 921]),
    (8188, [937, 921]), (64256, [70, 70]), (64257, [70, 73]), (64258, [70, 76]),
    (64259, [70, 70, 73]), (64260, [70, 70, 76]), (64261, [83, 84]), (64262, [83, 84]),
    (64275, [1348, 1350]), (64276, [1348, 1333]), (64277, [1348, 1339]), (64278, [1358, 1350]),
    (64279, [1348, 1341])
   ]"

definition upperCodePoint :: "int \<Rightarrow> int list" where
  "upperCodePoint c =
     (if c < 128 then (if 97 \<le> c \<and> c \<le> 122 then [c - 32] else [c])
      else
        case find (\<lambda>(lo, hi, stride, u). lo \<le> c \<and> c \<le> hi \<and> (c - lo) mod stride = 0)
               upperRanges of
          Some (lo, hi, stride, u) \<Rightarrow> [u + (c - lo)]
        | None \<Rightarrow> (case map_of upperSpecial c of Some us \<Rightarrow> us | None \<Rightarrow> [c]))"

definition toUpperCase :: "jsString \<Rightarrow> jsString" where
  "toUpperCase s = concat (map upperCodePoint s)"

definition isUpper :: "int \<Rightarrow> bool" where
  "isUpper c = (65 \<le> c \<and> c \<le> 90)"

definition isDigit :: "int \<Rightarrow> bool" where
  "isDigit c = (48 \<le> c \<and> c \<le> 57)"

text \<open>\<^verbatim>\<open>`${n}`\<close> for a number, and \<^verbatim>\<open>join(', ')\<close>.\<close>

function showNat :: "nat \<Rightarrow> string" where
  "showNat n =
     (if n < 10 then [char_of (48 + n)] else showNat (n div 10) @ [char_of (48 + n mod 10)])"
  by pat_completeness auto
termination
  by (relation "measure id") auto

definition showInt :: "int \<Rightarrow> string" where
  "showInt i = (if i < 0 then ''-'' @ showNat (nat (- i)) else showNat (nat i))"

fun joinComma :: "string list \<Rightarrow> string" where
  "joinComma [] = []"
| "joinComma [m] = m"
| "joinComma (m # ms) = m @ '', '' @ joinComma ms"

section \<open>Organization code middleware\<close>

text \<open>
  \<^verbatim>\<open>src/middlewares/organizationCode.ts\<close>. The three places a request can carry the code are
  JavaScript values: the header is a string or undefined, a JSON body or a parsed query can
  hold anything. Only what the middleware inspects is kept: whether the value is a string,
  and whether it is truthy.
\<close>

datatype jsval =
    JUndefined
  | JString jsString
  | JOther bool  \<comment> \<open>any value that is neither undefined nor a string, with its truthiness\<close>

fun truthy :: "jsval \<Rightarrow> bool" where
  "truthy JUndefined = False"
| "truthy (JString s) = (s \<noteq> [])"
| "truthy (JOther b) = b"

record request =
  headerOrganizationCode :: jsval  \<comment> \<open>\<^verbatim>\<open>req.headers['x-organization-code']\<close>\<close>
  bodyOrganizationCode :: jsval    \<comment> \<open>\<^verbatim>\<open>req.body?.organizationCode\<close>\<close>
  queryOrganizationCode :: jsval   \<comment> \<open>\<^verbatim>\<open>req.query?.organizationCode\<close>\<close>
  organizationCode :: "jsString option"  \<comment> \<open>\<^verbatim>\<open>req.organizationCode\<close>\<close>

datatype response =
    Next request           \<comment> \<open>\<^verbatim>\<open>next()\<close> was called, with the request as it then is\<close>
  | SendError nat string   \<comment> \<open>\<^verbatim>\<open>sendError(res, status, message)\<close>\<close>

text \<open>The pattern \<^verbatim>\<open>/^[A-Z0-9]{2,10}$/\<close>, without flags: between two and ten characters,
  each an upper-case letter or a digit of ASCII, and nothing else.\<close>

definition orgCodePattern :: "jsString \<Rightarrow> bool" where
  "orgCodePattern s =
     (2 \<le> length s \<and> length s \<le> 10 \<and> list_all (\<lambda>c. isUpper c \<or> isDigit c) s)"

definition requiredMessage :: string where
  "requiredMessage = ''Organization code is required. Please provide it in X-Organization-Code header, request body, or query parameter.''"

definition formatMessage :: string where
  "formatMessage = ''Invalid organization code format. Must be 2-10 characters, alphanumeric only.''"

definition extractOrganizationCode :: "request \<Rightarrow> response" where
  "extractOrganizationCode req =
     (let orgCode = headerOrganizationCode req;
          orgCode = (if \<not> truthy orgCode \<and> truthy (bodyOrganizationCode req)
                     then bodyOrganizationCode req else orgCode);
          orgCode = (if \<not> truthy orgCode \<and> truthy (queryOrganizationCode req)
                     then queryOrganizationCode req else orgCode)
      in case orgCode of
           JString s \<Rightarrow>
             if s = [] then SendError 400 requiredMessage
             else
               let trimmedOrgCode = toUpperCase (trim s) in
               if \<not> orgCodePattern trimmedOrgCode then SendError 400 formatMessage
               else Next (req\<lparr>organizationCode := Some trimmedOrgCode\<rparr>)
         | _ \<Rightarrow> SendError 400 requiredMessage)"

text \<open>The precedence of the three sources, as the specification words it: the header,
  else the body, else the query.\<close>

definition suppliedOrganizationCode :: "request \<Rightarrow> jsval" where
  "suppliedOrganizationCode req =
     (if truthy (headerOrganizationCode req) then headerOrganizationCode req
      else if truthy (bodyOrganizationCode req) then bodyOrganizationCode req
      else if truthy (queryOrganizationCode req) then queryOrganizationCode req
      else JUndefined)"

section \<open>Numbers\<close>

text \<open>
  A JavaScript number is an IEEE 754 binary64 value. The finite ones are rationals, and
  an arithmetic operation returns the exact result rounded to the nearest value with a
  53-bit significand, ties to the even significand. The exponent is not bounded here
  (no overflow to Infinity, no subnormals): every quantity of the attendance arithmetic
  lies far inside the normal range. \<open>bitLength n\<close> is the number of binary digits of a
  positive integer, and \<open>ilog2 q\<close> is the binary exponent of \<open>q \<noteq> 0\<close>, the integer \<open>e\<close> with
  \<open>2 powi e \<le> \<bar>q\<bar> < 2 powi (e + 1)\<close>: the difference of the bit lengths of numerator and
  denominator, or one less.
\<close>

function bitLength :: "int \<Rightarrow> nat" where
  "bitLength n = (if n \<le> 0 then 0 else Suc (bitLength (n div 2)))"
  by pat_completeness auto
termination
  by (relation "measure nat") auto

declare bitLength.simps [simp del]

definition ilog2 :: "rat \<Rightarrow> int" where
  "ilog2 q =
     (case quotient_of \<bar>q\<bar> of (a, b) \<Rightarrow>
        let k = int (bitLength a) - int (bitLength b)
        in if 2 powi k \<le> \<bar>q\<bar> then k else k - 1)"

definition roundHalfEven :: "rat \<Rightarrow> int" where
  "roundHalfEven z =
     (let n = \<lfloor>z\<rfloor>; f = z - of_int n
      in if f < 1 / 2 then n else if 1 / 2 < f then n + 1 else if even n then n else n + 1)"

definition fl :: "rat \<Rightarrow> rat" where
  "fl q = (if q = 0 then 0
           else let ulp = 2 powi (ilog2 q - 52) in of_int (roundHalfEven (q / ulp)) * ulp)"

definition jsSub :: "rat \<Rightarrow> rat \<Rightarrow> rat" where
  "jsSub a b = fl (a - b)"

definition jsMul :: "rat \<Rightarrow> rat \<Rightarrow> rat" where
  "jsMul a b = fl (a * b)"

definition jsDiv :: "rat \<Rightarrow> rat \<Rightarrow> rat" where
  "jsDiv a b = fl (a / b)"

text \<open>\<^verbatim>\<open>Math.round\<close>: the nearest integer, a tie going up. It is exact.\<close>

definition Math_round :: "rat \<Rightarrow> rat" where
  "Math_round x = of_int \<lfloor>x + 1 / 2\<rfloor>"

section \<open>Time\<close>

text \<open>
  A \<^verbatim>\<open>Date\<close> is its time value, the milliseconds since the epoch, an integer. The local
  time zone is a fixed offset \<open>tz\<close> in milliseconds east of UTC (no daylight-saving
  change), so a local day has 86400000 ms. \<open>startOfLocalDay tz t\<close> is what both
  \<^verbatim>\<open>new Date(d.getFullYear(), d.getMonth(), d.getDate())\<close> and \<^verbatim>\<open>setHours(0, 0, 0, 0)\<close>
  compute from \<open>t\<close>, and \<^verbatim>\<open>setHours(23, 59, 59, 999)\<close> adds 86399999 ms to it.
\<close>

definition startOfLocalDay :: "int \<Rightarrow> int \<Rightarrow> int" where
  "startOfLocalDay tz t = t - (t + tz) mod 86400000"

section \<open>Errors and identifiers\<close>

text \<open>
  The two error classes of the repository carry a message and an HTTP status. The driver
  contributes three errors of its own: the cast error of a lookup by an identifier string
  that is no ObjectId, with its message; the validation error of a document or update
  that validators of the schema refuse, with the path and the message of each; and the
  duplicate-key error (code 11000) of a unique index, whose message is abbreviated.
  The messages of a validation error are listed in the order of the schema's paths; the
  driver lists them in the order in which the request named the fields, which differs
  only when several paths fail at once.
\<close>

datatype error =
    AppError string nat   \<comment> \<open>\<^verbatim>\<open>middlewares/error.ts\<close>\<close>
  | ApiError string nat   \<comment> \<open>\<^verbatim>\<open>utils/response.ts\<close>\<close>
  | CastError string
  | ValidationError "(string \<times> string) list"
  | DuplicateKey

text \<open>\<^verbatim>\<open>error.message\<close>; that of a validation error is the one of an update, which is the only
  one that the code reads.\<close>

definition errorMessage :: "error \<Rightarrow> string" where
  "errorMessage e =
     (case e of
        AppError m _ \<Rightarrow> m
      | ApiError m _ \<Rightarrow> m
      | CastError m \<Rightarrow> m
      | ValidationError es \<Rightarrow>
          ''Validation failed: '' @ joinComma (map (\<lambda>(path, m). path @ '': '' @ m) es)
      | DuplicateKey \<Rightarrow> ''E11000 duplicate key error'')"

text \<open>The HTTP status that a failure carries, when it is an error of the repository.\<close>

definition failureStatus :: "error + 'a \<Rightarrow> nat option" where
  "failureStatus r =
     (case r of
        Inl (AppError _ c) \<Rightarrow> Some c
      | Inl (ApiError _ c) \<Rightarrow> Some c
      | _ \<Rightarrow> None)"

text \<open>An identifier argument is a string: one that the driver casts to an ObjectId, or one
  that it refuses with a cast error, whose message names the string, the path and the
  model. ObjectIds are numbered, and an identifier string is taken in the spelling that
  \<^verbatim>\<open>toString()\<close> gives its ObjectId.\<close>

datatype idArg = Id nat | Malformed string

text \<open>A new document gets an identifier that no document of its collection has.\<close>

definition newObjectId :: "nat list \<Rightarrow> nat" where
  "newObjectId ids = Suc (fold max ids 0)"

fun updateFirst :: "('a \<Rightarrow> bool) \<Rightarrow> ('a \<Rightarrow> 'a) \<Rightarrow> 'a list \<Rightarrow> 'a list" where
  "updateFirst P f [] = []"
| "updateFirst P f (x # xs) = (if P x then f x # xs else x # updateFirst P f xs)"

fun removeFirst :: "('a \<Rightarrow> bool) \<Rightarrow> 'a list \<Rightarrow> 'a list" where
  "removeFirst P [] = []"
| "removeFirst P (x # xs) = (if P x then xs else x # removeFirst P xs)"

section \<open>Data model\<close>

text \<open>
  The documents of \<^verbatim>\<open>models/User.ts\<close>, \<^verbatim>\<open>models/Role.ts\<close> and \<^verbatim>\<open>models/Attendance.ts\<close> and of
  the permission collection. Roles and attendance records have all their fields but the
  automatic time stamps of a role; users and permissions have the fields that the
  operations below read.
\<close>

datatype UserStatus = ACTIVE | INACTIVE | SUSPENDED

datatype AttendanceStatus = PRESENT | ABSENT | LATE | HALF_DAY | WORK_FROM_HOME

record User =
  user_id :: nat
  email :: jsString
  fullName :: jsString
  role :: int
  user_status :: UserStatus
  user_organizationCode :: jsString

record Permission =
  permission_id :: nat
  permission_name :: jsString

record Role =
  role_id :: nat
  name :: jsString
  displayName :: jsString
  description :: "jsString option"
  permissions :: "nat list"
  isActive :: bool
  isSystemRole :: bool
  level :: int
  dataAccessLevel :: nat
  role_organizationCode :: jsString
  role_createdBy :: jsString
  role_updatedBy :: jsString

record Attendance =
  attendance_id :: nat
  employeeId :: nat
  date :: int
  checkIn :: int
  checkOut :: "int option"
  totalHours :: "rat option"
  status :: AttendanceStatus
  attendanceNotes :: "jsString option"  \<comment> \<open>the field \<^verbatim>\<open>notes\<close>\<close>
  isLoggedIn :: bool
  createdBy :: nat
  updatedBy :: nat
  createdAt :: int
  updatedAt :: int

text \<open>
  The database: one list per collection, in insertion order, which is the order in
  which an unsorted \<^verbatim>\<open>findOne\<close> meets the documents. A lookup by a malformed identifier
  fails with the cast error. The schemas act on what is written and on what is asked:
  a string of a document, an update or a query filter first goes through the setters of
  its path (\<^verbatim>\<open>trim\<close>, then \<^verbatim>\<open>uppercase\<close>), and a document or update is validated before it
  is written, by \<^verbatim>\<open>create\<close>, by \<^verbatim>\<open>save\<close> (before the \<^verbatim>\<open>pre('save')\<close> hooks) and by
  \<^verbatim>\<open>findByIdAndUpdate\<close> with \<^verbatim>\<open>runValidators\<close>. Failures of the connection are not part of
  the model.
\<close>

record db =
  users :: "User list"
  roles :: "Role list"
  permissionDocs :: "Permission list"
  attendances :: "Attendance list"

text \<open>The setters of an \<^verbatim>\<open>organizationCode\<close> path, of users and of roles alike.\<close>

definition organizationCodeSetter :: "jsString \<Rightarrow> jsString" where
  "organizationCodeSetter s = toUpperCase (trim s)"

text \<open>The validators \<^verbatim>\<open>required\<close> and \<^verbatim>\<open>maxlength\<close> of a string path, with their messages.\<close>

definition atPath :: "string \<Rightarrow> string list \<Rightarrow> (string \<times> string) list" where
  "atPath path messages = map (Pair path) messages"

definition requiredString :: "string \<Rightarrow> jsString \<Rightarrow> string list" where
  "requiredString message s = (if s = [] then [message] else [])"

definition maxLength :: "nat \<Rightarrow> string \<Rightarrow> jsString \<Rightarrow> string list" where
  "maxLength n message s = (if n < jsLength s then [message] else [])"

definition User_findById :: "db \<Rightarrow> idArg \<Rightarrow> error + User option" where
  "User_findById d i =
     (case i of Malformed m \<Rightarrow> Inl (CastError m)
      | Id n \<Rightarrow> Inr (find (\<lambda>u. user_id u = n) (users d)))"

definition Role_findById :: "db \<Rightarrow> idArg \<Rightarrow> error + Role option" where
  "Role_findById d i =
     (case i of Malformed m \<Rightarrow> Inl (CastError m)
      | Id n \<Rightarrow> Inr (find (\<lambda>r. role_id r = n) (roles d)))"

definition Attendance_findById :: "db \<Rightarrow> idArg \<Rightarrow> error + Attendance option" where
  "Attendance_findById d i =
     (case i of Malformed m \<Rightarrow> Inl (CastError m)
      | Id n \<Rightarrow> Inr (find (\<lambda>a. attendance_id a = n) (attendances d)))"

text \<open>\<^verbatim>\<open>populate('permissions')\<close>: each referenced identifier is replaced by its permission
  document; a reference to no document is dropped.\<close>

definition populate :: "db \<Rightarrow> Role \<Rightarrow> Permission list" where
  "populate d r =
     List.map_filter (\<lambda>i. find (\<lambda>p. permission_id p = i) (permissionDocs d)) (permissions r)"

type_synonym PopulatedRole = "Role \<times> Permission list"

definition Role_findById_populated :: "db \<Rightarrow> nat \<Rightarrow> PopulatedRole option" where
  "Role_findById_populated d n =
     map_option (\<lambda>r. (r, populate d r)) (find (\<lambda>r. role_id r = n) (roles d))"

section \<open>Attendance service\<close>

text \<open>
  \<^verbatim>\<open>AttendanceService\<close> with the \<^verbatim>\<open>pre('save')\<close> hook and the validators of
  \<^verbatim>\<open>models/Attendance.ts\<close>. Every operation takes the database and returns it with its
  result, so that a failure shows what it left behind. The
  \<^verbatim>\<open>populate('employeeId', ...)\<close> of a returned record only decorates it and is left out.
  The clock of \<^verbatim>\<open>new Date()\<close> and of the time stamps is the argument \<open>now\<close>.
\<close>

record MarkAttendanceData =
  data_employeeId :: idArg
  data_checkIn :: int
  data_checkOut :: "int option"
  data_status :: "AttendanceStatus option"
  data_notes :: "jsString option"

text \<open>The query shared by \<^verbatim>\<open>getTodayAttendance\<close>, \<^verbatim>\<open>getAllTodayAttendance\<close> and
  \<^verbatim>\<open>getIncompleteSession\<close>: the employee's records whose \<^verbatim>\<open>date\<close> or \<^verbatim>\<open>checkIn\<close> lies in the
  local day.\<close>

definition inLocalDay :: "int \<Rightarrow> int \<Rightarrow> nat \<Rightarrow> Attendance \<Rightarrow> bool" where
  "inLocalDay tz d userId a =
     (let startOfDay = startOfLocalDay tz d; endOfDay = startOfDay + 86399999
      in employeeId a = userId \<and>
         (startOfDay \<le> date a \<and> date a \<le> endOfDay \<or>
          startOfDay \<le> checkIn a \<and> checkIn a \<le> endOfDay))"

definition getTodayAttendance :: "int \<Rightarrow> db \<Rightarrow> idArg \<Rightarrow> int \<Rightarrow> error + Attendance option" where
  "getTodayAttendance tz d userId day =
     (case userId of Malformed m \<Rightarrow> Inl (CastError m)
      | Id n \<Rightarrow> Inr (find (inLocalDay tz day n) (attendances d)))"

text \<open>The hook: whenever both times are there, the hours are computed anew.\<close>

definition preSave :: "Attendance \<Rightarrow> Attendance" where
  "preSave a =
     (case checkOut a of
        None \<Rightarrow> a
      | Some out \<Rightarrow>
          let diffMs = jsSub (of_int out) (of_int (checkIn a))
          in a\<lparr>totalHours :=
                 Some (jsDiv (Math_round (jsMul (jsDiv diffMs (1000 * 60 * 60)) 100)) 100)\<rparr>)"

text \<open>The validators of the paths \<^verbatim>\<open>notes\<close> and \<^verbatim>\<open>totalHours\<close>.\<close>

definition notesErrors :: "jsString option \<Rightarrow> (string \<times> string) list" where
  "notesErrors n =
     (case n of
        Some s \<Rightarrow> atPath ''notes'' (maxLength 500 ''Notes cannot exceed 500 characters'' s)
      | None \<Rightarrow> [])"

definition totalHoursErrors :: "rat option \<Rightarrow> (string \<times> string) list" where
  "totalHoursErrors h =
     (case h of
        Some x \<Rightarrow> if x < 0 then [(''totalHours'', ''Total hours must be positive'')] else []
      | None \<Rightarrow> [])"

text \<open>\<^verbatim>\<open>attendanceData.notes || existingRecord.notes\<close>.\<close>

definition notesOr :: "jsString option \<Rightarrow> jsString option \<Rightarrow> jsString option" where
  "notesOr a b = (case a of Some s \<Rightarrow> if s \<noteq> [] then Some s else b | None \<Rightarrow> b)"

text \<open>The notes that a clock-in writes, after the \<^verbatim>\<open>trim\<close> setter: those of the update when
  a record of the day exists, those of the new document when none does. None stands for
  undefined, which writes nothing.\<close>

definition writtenNotes :: "MarkAttendanceData \<Rightarrow> Attendance option \<Rightarrow> jsString option" where
  "writtenNotes attendanceData existing =
     map_option trim
       (case existing of
          Some existingRecord \<Rightarrow>
            notesOr (data_notes attendanceData) (attendanceNotes existingRecord)
        | None \<Rightarrow> data_notes attendanceData)"

text \<open>The update that \<^verbatim>\<open>markAttendance\<close> sends for a record that exists already, as a
  function on the stored document: the fields named in \<^verbatim>\<open>updateData\<close> are set, \<^verbatim>\<open>checkOut\<close>
  is unset when the record found had one, and an undefined \<^verbatim>\<open>notes\<close> sets nothing.\<close>

definition attendanceUpdateData ::
  "MarkAttendanceData \<Rightarrow> Attendance \<Rightarrow> nat \<Rightarrow> int \<Rightarrow> Attendance \<Rightarrow> Attendance" where
  "attendanceUpdateData attendanceData existingRecord by now a =
     a\<lparr> checkOut := (if checkOut existingRecord \<noteq> None then None else checkOut a),
        status := PRESENT,
        attendanceNotes :=
          (case writtenNotes attendanceData (Some existingRecord) of
             Some s \<Rightarrow> Some s
           | None \<Rightarrow> attendanceNotes a),
        isLoggedIn := True,
        updatedBy := by,
        updatedAt := now \<rparr>"

text \<open>The document of \<^verbatim>\<open>Attendance.create\<close>, the hook applied.\<close>

definition created ::
  "nat \<Rightarrow> nat \<Rightarrow> int \<Rightarrow> MarkAttendanceData \<Rightarrow> nat \<Rightarrow> int \<Rightarrow> Attendance" where
  "created newId employee localDate attendanceData by now =
     preSave
       \<lparr> attendance_id = newId,
         employeeId = employee,
         date = localDate,
         checkIn = data_checkIn attendanceData,
         checkOut = data_checkOut attendanceData,
         totalHours = None,
         status = (case data_status attendanceData of Some st \<Rightarrow> st | None \<Rightarrow> PRESENT),
         attendanceNotes = writtenNotes attendanceData None,
         isLoggedIn = True,
         createdBy = by,
         updatedBy = by,
         createdAt = now,
         updatedAt = now \<rparr>"

definition markAttendance ::
  "int \<Rightarrow> int \<Rightarrow> db \<Rightarrow> MarkAttendanceData \<Rightarrow> nat \<Rightarrow> (error + Attendance) \<times> db" where
  "markAttendance tz now d attendanceData by =
     (case User_findById d (data_employeeId attendanceData) of
        Inl e \<Rightarrow> (Inl e, d)
      | Inr None \<Rightarrow> (Inl (AppError ''Employee not found'' 404), d)
      | Inr (Some employee) \<Rightarrow>
          let localDate = startOfLocalDay tz (data_checkIn attendanceData) in
          (case getTodayAttendance tz d (data_employeeId attendanceData) localDate of
             Inl e \<Rightarrow> (Inl e, d)
           | Inr (Some existingRecord) \<Rightarrow>
               let hasId = (\<lambda>a. attendance_id a = attendance_id existingRecord);
                   update = attendanceUpdateData attendanceData existingRecord by now;
                   errors = notesErrors (writtenNotes attendanceData (Some existingRecord))
               in if errors \<noteq> [] then (Inl (ValidationError errors), d)
                  else
                    (case find hasId (attendances d) of
                       None \<Rightarrow> (Inl (AppError ''Failed to update attendance record'' 500), d)
                     | Some a \<Rightarrow>
                         (Inr (update a),
                          d\<lparr>attendances := updateFirst hasId update (attendances d)\<rparr>))
           | Inr None \<Rightarrow>
               let attendance =
                     created (newObjectId (map attendance_id (attendances d)))
                       (user_id employee) localDate attendanceData by now;
                   errors = notesErrors (writtenNotes attendanceData None)
               in if errors \<noteq> [] then (Inl (ValidationError errors), d)
                  else (Inr attendance, d\<lparr>attendances := attendances d @ [attendance]\<rparr>)))"

text \<open>The notes of a check-out are appended to those of the record.\<close>

definition checkoutNotes :: "jsString option \<Rightarrow> jsString \<Rightarrow> jsString" where
  "checkoutNotes old n =
     (case old of
        Some s \<Rightarrow> if s \<noteq> [] then s @ str '' | Checkout: '' @ n else str ''Checkout: '' @ n
      | None \<Rightarrow> str ''Checkout: '' @ n)"

text \<open>The document after the assignments of \<^verbatim>\<open>markCheckOut\<close>, the \<^verbatim>\<open>trim\<close> setter applied to
  the notes.\<close>

definition checkOutAssigned :: "Attendance \<Rightarrow> int \<Rightarrow> nat \<Rightarrow> jsString option \<Rightarrow> Attendance" where
  "checkOutAssigned attendance checkOutTime by checkoutNote =
     (let sessionHours =
            jsDiv (jsSub (of_int checkOutTime) (of_int (checkIn attendance))) (1000 * 60 * 60);
          attendance = attendance
            \<lparr> checkOut := Some checkOutTime,
              totalHours := Some (jsDiv (Math_round (jsMul sessionHours 100)) 100),
              isLoggedIn := False,
              updatedBy := by \<rparr>
      in case checkoutNote of
           Some n \<Rightarrow>
             if n \<noteq> []
             then attendance\<lparr>attendanceNotes :=
                    Some (trim (checkoutNotes (attendanceNotes attendance) n))\<rparr>
             else attendance
         | None \<Rightarrow> attendance)"

text \<open>What \<^verbatim>\<open>attendance.save()\<close> validates of it: the hours, and the notes when they were
  assigned.\<close>

definition checkOutErrors ::
  "Attendance \<Rightarrow> jsString option \<Rightarrow> (string \<times> string) list" where
  "checkOutErrors assigned checkoutNote =
     totalHoursErrors (totalHours assigned) @
     (case checkoutNote of
        Some n \<Rightarrow> if n \<noteq> [] then notesErrors (attendanceNotes assigned) else []
      | None \<Rightarrow> [])"

text \<open>The document as the save stores it: the assignments, then the hook, then the time
  stamp.\<close>

definition checkedOut :: "int \<Rightarrow> Attendance \<Rightarrow> int \<Rightarrow> nat \<Rightarrow> jsString option \<Rightarrow> Attendance" where
  "checkedOut now attendance checkOutTime by checkoutNote =
     (preSave (checkOutAssigned attendance checkOutTime by checkoutNote))\<lparr>updatedAt := now\<rparr>"

definition markCheckOut ::
  "int \<Rightarrow> db \<Rightarrow> idArg \<Rightarrow> int \<Rightarrow> nat \<Rightarrow> jsString option \<Rightarrow> (error + Attendance) \<times> db" where
  "markCheckOut now d attendanceId checkOutTime by checkoutNote =
     (case Attendance_findById d attendanceId of
        Inl e \<Rightarrow> (Inl e, d)
      | Inr None \<Rightarrow> (Inl (AppError ''Attendance record not found'' 404), d)
      | Inr (Some attendance) \<Rightarrow>
          if checkOut attendance \<noteq> None then (Inl (AppError ''Already checked out'' 400), d)
          else if checkOutTime \<le> checkIn attendance
          then (Inl (AppError ''Check-out time must be after check-in time'' 400), d)
          else
            let errors =
                  checkOutErrors (checkOutAssigned attendance checkOutTime by checkoutNote)
                    checkoutNote;
                saved = checkedOut now attendance checkOutTime by checkoutNote
            in if errors \<noteq> [] then (Inl (ValidationError errors), d)
               else
                 (Inr saved,
                  d\<lparr>attendances :=
                      updateFirst (\<lambda>a. attendance_id a = attendance_id attendance)
                        (\<lambda>_. saved) (attendances d)\<rparr>))"

text \<open>Whether the check-out note, appended to the notes of the record, makes them longer
  than the 500 characters of the schema.\<close>

definition checkoutNoteTooLong :: "Attendance \<Rightarrow> jsString option \<Rightarrow> bool" where
  "checkoutNoteTooLong attendance checkoutNote =
     (case checkoutNote of
        Some n \<Rightarrow> n \<noteq> [] \<and> 500 < jsLength (trim (checkoutNotes (attendanceNotes attendance) n))
      | None \<Rightarrow> False)"

section \<open>Role service\<close>

text \<open>
  \<^verbatim>\<open>RoleService\<close> with the setters, the validators and the unique index of
  \<^verbatim>\<open>models/Role.ts\<close>. Each method is a \<^verbatim>\<open>try\<close> whose \<^verbatim>\<open>catch\<close> passes an \<^verbatim>\<open>ApiError\<close> on and turns
  every other error into an \<^verbatim>\<open>ApiError\<close>. A returned role is the stored document with its
  permissions populated.
\<close>

record RoleCreateInput =
  create_name :: jsString
  create_displayName :: jsString
  create_description :: "jsString option"
  create_level :: int
  create_isActive :: "bool option"

record RoleUpdateInput =
  update_name :: "jsString option"
  update_displayName :: "jsString option"
  update_description :: "jsString option"
  update_level :: "int option"
  update_isActive :: "bool option"

definition wrapError :: "string \<Rightarrow> error \<Rightarrow> error" where
  "wrapError message e = (case e of ApiError m c \<Rightarrow> ApiError m c | _ \<Rightarrow> ApiError message 500)"

text \<open>The validators of the paths of a role, with the messages of the schema and, for
  \<^verbatim>\<open>level\<close>, those of the driver.\<close>

definition nameErrors :: "jsString \<Rightarrow> (string \<times> string) list" where
  "nameErrors s =
     atPath ''name''
       (requiredString ''Role name is required'' s @
        maxLength 50 ''Role name cannot exceed 50 characters'' s)"

definition displayNameErrors :: "jsString \<Rightarrow> (string \<times> string) list" where
  "displayNameErrors s =
     atPath ''displayName''
       (requiredString ''Display name is required'' s @
        maxLength 100 ''Display name cannot exceed 100 characters'' s)"

definition descriptionErrors :: "jsString option \<Rightarrow> (string \<times> string) list" where
  "descriptionErrors s =
     (case s of
        Some t \<Rightarrow> atPath ''description'' (maxLength 500 ''Description cannot exceed 500 characters'' t)
      | None \<Rightarrow> [])"

definition levelErrors :: "int \<Rightarrow> (string \<times> string) list" where
  "levelErrors v =
     atPath ''level''
       (if v < 1
        then [''Path `level` ('' @ showInt v @ '') is less than minimum allowed value (1).'']
        else if 100 < v
        then [''Path `level` ('' @ showInt v @ '') is more than maximum allowed value (100).'']
        else [])"

definition organizationCodeErrors :: "jsString \<Rightarrow> (string \<times> string) list" where
  "organizationCodeErrors s =
     atPath ''organizationCode''
       (requiredString ''Organization code is required'' s @
        maxLength 10 ''Organization code cannot exceed 10 characters'' s)"

text \<open>What the validation of a new role document finds.\<close>

definition roleValidationErrors :: "Role \<Rightarrow> (string \<times> string) list" where
  "roleValidationErrors r =
     nameErrors (name r) @ displayNameErrors (displayName r) @
     descriptionErrors (description r) @ levelErrors (level r) @
     organizationCodeErrors (role_organizationCode r)"


text \<open>\<^verbatim>\<open>new Role({ ...roleData, organizationCode, createdBy, updatedBy })\<close>: the setters of the
  paths applied, and the defaults of the schema for what the input does not have.\<close>

definition newRoleDocument :: "nat \<Rightarrow> RoleCreateInput \<Rightarrow> jsString \<Rightarrow> jsString \<Rightarrow> Role" where
  "newRoleDocument newId roleData code userId =
     \<lparr> role_id = newId,
       name = trim (create_name roleData),
       displayName = trim (create_displayName roleData),
       description = map_option trim (create_description roleData),
       permissions = [],
       isActive = (case create_isActive roleData of Some b \<Rightarrow> b | None \<Rightarrow> True),
       isSystemRole = False,
       level = create_level roleData,
       dataAccessLevel = 3,
       role_organizationCode = organizationCodeSetter code,
       role_createdBy = userId,
       role_updatedBy = userId \<rparr>"



text \<open>\<^verbatim>\<open>Role.findOne({ _id: roleId, organizationCode: ... })\<close>, the code cast by the setters of
  its path.\<close>

definition Role_findInOrganization :: "db \<Rightarrow> idArg \<Rightarrow> jsString \<Rightarrow> error + Role option" where
  "Role_findInOrganization d i code =
     (case i of Malformed m \<Rightarrow> Inl (CastError m)
      | Id n \<Rightarrow>
          Inr (find (\<lambda>r. role_id r = n \<and> role_organizationCode r = organizationCodeSetter code)
                 (roles d)))"

text \<open>The update \<^verbatim>\<open>{ ...updateData, updatedBy: userId }\<close> as a function on the stored
  document, the setters applied, and what its validators find.\<close>

definition applyRoleUpdate :: "RoleUpdateInput \<Rightarrow> jsString \<Rightarrow> Role \<Rightarrow> Role" where
  "applyRoleUpdate u userId r =
     r\<lparr> name := (case update_name u of Some v \<Rightarrow> trim v | None \<Rightarrow> name r),
        displayName := (case update_displayName u of Some v \<Rightarrow> trim v | None \<Rightarrow> displayName r),
        description :=
          (case update_description u of Some v \<Rightarrow> Some (trim v) | None \<Rightarrow> description r),
        level := (case update_level u of Some v \<Rightarrow> v | None \<Rightarrow> level r),
        isActive := (case update_isActive u of Some v \<Rightarrow> v | None \<Rightarrow> isActive r),
        role_updatedBy := userId \<rparr>"

definition roleUpdateErrors :: "RoleUpdateInput \<Rightarrow> (string \<times> string) list" where
  "roleUpdateErrors u =
     (case update_name u of Some v \<Rightarrow> nameErrors (trim v) | None \<Rightarrow> []) @
     (case update_displayName u of Some v \<Rightarrow> displayNameErrors (trim v) | None \<Rightarrow> []) @
     descriptionErrors (map_option trim (update_description u)) @
     (case update_level u of Some v \<Rightarrow> levelErrors v | None \<Rightarrow> [])"

definition updateRole ::
  "db \<Rightarrow> idArg \<Rightarrow> RoleUpdateInput \<Rightarrow> jsString \<Rightarrow> jsString \<Rightarrow>
   (error + PopulatedRole option) \<times> db" where
  "updateRole d roleId updateData orgCode userId =
     (case Role_findInOrganization d roleId (toUpperCase orgCode) of
        Inl e \<Rightarrow> (Inl (wrapError (''Failed to update role: '' @ errorMessage e) e), d)
      | Inr None \<Rightarrow> (Inl (ApiError ''Role not found'' 404), d)
      | Inr (Some r) \<Rightarrow>
          if isSystemRole r then (Inl (ApiError ''Cannot update system role'' 403), d)
          else if (case update_name updateData of
                     Some n \<Rightarrow>
                       n \<noteq> [] \<and> n \<noteq> name r \<and>
                       find (\<lambda>x. name x = trim n \<and>
                                  role_organizationCode x =
                                    organizationCodeSetter (toUpperCase orgCode) \<and>
                                  role_id x \<noteq> role_id r) (roles d) \<noteq> None
                   | None \<Rightarrow> False)
          then (Inl (ApiError ''Role name already exists in this organization'' 400), d)
          else
            let errors = roleUpdateErrors updateData;
                d' = d\<lparr>roles := updateFirst (\<lambda>x. role_id x = role_id r)
                                   (applyRoleUpdate updateData userId) (roles d)\<rparr>
            in if errors \<noteq> []
               then (Inl (ApiError (''Failed to update role: '' @
                                     errorMessage (ValidationError errors)) 500), d)
               else (Inr (Role_findById_populated d' (role_id r)), d'))"

text \<open>\<^verbatim>\<open>User.countDocuments({ role, organizationCode })\<close> of \<^verbatim>\<open>deleteRole\<close> casts its code by
  the setters of the users' path.\<close>

definition deleteRole :: "db \<Rightarrow> idArg \<Rightarrow> jsString \<Rightarrow> (error + unit) \<times> db" where
  "deleteRole d roleId orgCode =
     (case Role_findInOrganization d roleId (toUpperCase orgCode) of
        Inl e \<Rightarrow> (Inl (wrapError (''Failed to delete role: '' @ errorMessage e) e), d)
      | Inr None \<Rightarrow> (Inl (ApiError ''Role not found'' 404), d)
      | Inr (Some r) \<Rightarrow>
          if isSystemRole r then (Inl (ApiError ''Cannot delete system role'' 403), d)
          else
            let userCount =
                  length (filter (\<lambda>u. role u = level r \<and>
                                       user_organizationCode u =
                                         organizationCodeSetter (toUpperCase orgCode))
                            (users d))
            in if userCount > 0
               then (Inl (ApiError (''Cannot delete role that is assigned to '' @
                                     showNat userCount @ '' users'') 400), d)
               else (Inr (), d\<lparr>roles := removeFirst (\<lambda>x. role_id x = role_id r) (roles d)\<rparr>))"

definition isMalformed :: "idArg \<Rightarrow> bool" where
  "isMalformed i = (case i of Malformed _ \<Rightarrow> True | Id _ \<Rightarrow> False)"

definition addPermissions ::
  "db \<Rightarrow> idArg \<Rightarrow> idArg list \<Rightarrow> (error + PopulatedRole option) \<times> db" where
  "addPermissions d roleId permissionIds =
     (case Role_findById d roleId of
        Inl e \<Rightarrow> (Inl (wrapError ''Failed to add permissions'' e), d)
      | Inr None \<Rightarrow> (Inl (ApiError ''Role not found'' 404), d)
      | Inr (Some r) \<Rightarrow>
          if isSystemRole r then (Inl (ApiError ''Cannot modify system role permissions'' 403), d)
          else if list_ex isMalformed permissionIds
          then (Inl (ApiError ''Failed to add permissions'' 500), d)
          else
            let validPermissions =
                  length (filter (\<lambda>p. Id (permission_id p) \<in> set permissionIds)
                            (permissionDocs d))
            in if validPermissions \<noteq> length permissionIds
               then (Inl (ApiError ''Some permissions are invalid'' 400), d)
               else
                 let newPermissions =
                       filter (\<lambda>i. \<not> (\<exists>p \<in> set (permissions r). Id p = i)) permissionIds
                 in if newPermissions = []
                    then (Inl (ApiError ''All permissions are already assigned to this role'' 400), d)
                    else
                      let r' = r\<lparr>permissions :=
                                  permissions r @
                                  List.map_filter (\<lambda>i. case i of Id n \<Rightarrow> Some n | Malformed _ \<Rightarrow> None)
                                    newPermissions\<rparr>;
                          d' = d\<lparr>roles := updateFirst (\<lambda>x. role_id x = role_id r)
                                             (\<lambda>_. r') (roles d)\<rparr>
                      in (Inr (Role_findById_populated d' (role_id r)), d'))"

definition removePermissions ::
  "db \<Rightarrow> idArg \<Rightarrow> idArg list \<Rightarrow> (error + PopulatedRole option) \<times> db" where
  "removePermissions d roleId permissionIds =
     (case Role_findById d roleId of
        Inl e \<Rightarrow> (Inl (wrapError ''Failed to remove permissions'' e), d)
      | Inr None \<Rightarrow> (Inl (ApiError ''Role not found'' 404), d)
      | Inr (Some r) \<Rightarrow>
          if isSystemRole r then (Inl (ApiError ''Cannot modify system role permissions'' 403), d)
          else
            let r' = r\<lparr>permissions := filter (\<lambda>p. Id p \<notin> set permissionIds) (permissions r)\<rparr>;
                d' = d\<lparr>roles := updateFirst (\<lambda>x. role_id x = role_id r) (\<lambda>_. r') (roles d)\<rparr>
            in (Inr (Role_findById_populated d' (role_id r)), d'))"

text \<open>\<^verbatim>\<open>hasPermission\<close> returns a boolean whatever happens: its \<^verbatim>\<open>catch\<close> returns false.\<close>

definition hasPermission :: "db \<Rightarrow> idArg \<Rightarrow> jsString \<Rightarrow> bool" where
  "hasPermission d roleId permissionName =
     (case Role_findById d roleId of
        Inl e \<Rightarrow> False
      | Inr None \<Rightarrow> False
      | Inr (Some r) \<Rightarrow> list_ex (\<lambda>p. permission_name p = permissionName) (populate d r))"

section \<open>User service\<close>

text \<open>\<^verbatim>\<open>UserService.getUsersAboveRole\<close>: the query, the sort on role and then full name,
  and the projection of each user. The organization code of the filter is cast by the
  setters of its path in \<^verbatim>\<open>models/User.ts\<close>, which are those of a role's code.\<close>

record UserSummary =
  userId :: nat
  summary_email :: jsString
  summary_fullName :: jsString
  summary_role :: int

definition summary :: "User \<Rightarrow> UserSummary" where
  "summary u =
     \<lparr> userId = user_id u, summary_email = email u,
       summary_fullName = fullName u, summary_role = role u \<rparr>"

definition getUsersAboveRole :: "db \<Rightarrow> int \<Rightarrow> jsString \<Rightarrow> UserSummary list" where
  "getUsersAboveRole d r code =
     map summary
       (sort_key (\<lambda>u. (role u, fullName u))
          (filter (\<lambda>u. role u < r \<and> user_organizationCode u = organizationCodeSetter code \<and>
                        user_status u = ACTIVE)
             (users d)))"

section \<open>Sample data\<close>

text \<open>A small database on which the theorems below are instantiated: two tenants, a
  system role, a role that a user holds and one that nobody holds.\<close>

definition asha :: User where
  "asha = \<lparr> user_id = 1, email = str ''asha@acme.test'', fullName = str ''Asha'', role = 5,
            user_status = ACTIVE, user_organizationCode = str ''ACME'' \<rparr>"

definition ben :: User where
  "ben = \<lparr> user_id = 2, email = str ''ben@acme.test'', fullName = str ''Ben'', role = 3,
           user_status = INACTIVE, user_organizationCode = str ''ACME'' \<rparr>"

definition cara :: User where
  "cara = \<lparr> user_id = 3, email = str ''cara@acme.test'', fullName = str ''Cara'', role = 2,
            user_status = ACTIVE, user_organizationCode = str ''ACME'' \<rparr>"

definition dev :: User where
  "dev = \<lparr> user_id = 4, email = str ''dev@widge.test'', fullName = str ''Dev'', role = 1,
           user_status = ACTIVE, user_organizationCode = str ''WIDGE'' \<rparr>"

definition usersRead :: Permission where
  "usersRead = \<lparr> permission_id = 100, permission_name = str ''users:read'' \<rparr>"

definition usersCreate :: Permission where
  "usersCreate = \<lparr> permission_id = 101, permission_name = str ''users:create'' \<rparr>"

definition adminRole :: Role where
  "adminRole = \<lparr> role_id = 10, name = str ''admin'', displayName = str ''Administrator'',
                 description = None, permissions = [100, 101], isActive = True,
                 isSystemRole = True, level = 1, dataAccessLevel = 1,
                 role_organizationCode = str ''ACME'', role_createdBy = str ''seed'',
                 role_updatedBy = str ''seed'' \<rparr>"

definition staffRole :: Role where
  "staffRole = \<lparr> role_id = 11, name = str ''Staff'', displayName = str ''Staff'',
                 description = None, permissions = [100], isActive = True,
                 isSystemRole = False, level = 5, dataAccessLevel = 3,
                 role_organizationCode = str ''ACME'', role_createdBy = str ''3'',
                 role_updatedBy = str ''3'' \<rparr>"

definition recruiterRole :: Role where
  "recruiterRole = \<lparr> role_id = 12, name = str ''Recruiter'', displayName = str ''Recruiter'',
                     description = None, permissions = [], isActive = True,
                     isSystemRole = False, level = 50, dataAccessLevel = 3,
                     role_organizationCode = str ''ACME'', role_createdBy = str ''3'',
                     role_updatedBy = str ''3'' \<rparr>"

definition sampleDb :: db where
  "sampleDb = \<lparr> users = [asha, ben, cara, dev],
                roles = [adminRole, staffRole, recruiterRole],
                permissionDocs = [usersRead, usersCreate],
                attendances = [] \<rparr>"

text \<open>Clock-ins at 09:00 and 14:00 of the first day of the epoch; the check-out between
  them is at 13:00.\<close>

definition clockIn :: "nat \<Rightarrow> int \<Rightarrow> MarkAttendanceData" where
  "clockIn employee t =
     \<lparr> data_employeeId = Id employee, data_checkIn = t, data_checkOut = None,
       data_status = None, data_notes = None \<rparr>"

text \<open>A closed record of a late arrival at 10:00, checked out at 13:00.\<close>

definition lateRecord :: Attendance where
  "lateRecord =
     \<lparr> attendance_id = 7, employeeId = 1, date = 0, checkIn = 36000000,
       checkOut = Some 46800000, totalHours = Some 3, status = LATE,
       attendanceNotes = Some (str ''traffic''), isLoggedIn = False,
       createdBy = 1, updatedBy = 1, createdAt = 36000000, updatedAt = 46800000 \<rparr>"

text \<open>An open record of a clock-in at 09:00.\<close>

definition openRecord :: Attendance where
  "openRecord =
     \<lparr> attendance_id = 8, employeeId = 1, date = 0, checkIn = 32400000,
       checkOut = None, totalHours = None, status = PRESENT,
       attendanceNotes = None, isLoggedIn = True,
       createdBy = 1, updatedBy = 1, createdAt = 32400000, updatedAt = 32400000 \<rparr>"

text \<open>A note of 501 characters, one more than the schema allows.\<close>

definition longNote :: jsString where
  "longNote = replicate 501 120"

section \<open>Properties of the organization code middleware\<close>

lemma orgCodePattern_nonempty: "orgCodePattern s \<Longrightarrow> s \<noteq> []"
  by (auto simp: orgCodePattern_def)

lemma trim_Nil [simp]: "trim [] = []"
  by (simp add: trim_def)

lemma str_eq_Nil [simp]: "(str s = []) = (s = [])"
  by (simp add: str_def)

lemma extract_chosen:
  "extractOrganizationCode req =
     (case suppliedOrganizationCode req of
        JString s \<Rightarrow>
          if orgCodePattern (toUpperCase (trim s))
          then Next (req\<lparr>organizationCode := Some (toUpperCase (trim s))\<rparr>)
          else SendError 400 formatMessage
      | _ \<Rightarrow> SendError 400 requiredMessage)"
  by (cases "headerOrganizationCode req"; cases "bodyOrganizationCode req";
      cases "queryOrganizationCode req")
     (auto simp: extractOrganizationCode_def suppliedOrganizationCode_def Let_def)

text \<open>
  Claim C5, as the code has it. The middleware accepts a request exactly when the value
  it takes the code from (the header, else the body, else the query) is a string that
  matches \<^verbatim>\<open>^[A-Z0-9]{2,10}$\<close> after its surrounding white space is trimmed and it is put in
  upper case; it then stores that trimmed, upper-case code on the request. Every other
  request, a missing code included, is answered with status 400.
\<close>

theorem extractOrganizationCode_accepts_exactly:
  "(extractOrganizationCode req = Next req') =
     (\<exists>s. suppliedOrganizationCode req = JString s \<and>
          orgCodePattern (toUpperCase (trim s)) \<and>
          req' = req\<lparr>organizationCode := Some (toUpperCase (trim s))\<rparr>)
   \<and> ((\<forall>r. extractOrganizationCode req \<noteq> Next r) \<longrightarrow>
        (\<exists>m. extractOrganizationCode req = SendError 400 m))"
  unfolding extract_chosen
  by (cases "suppliedOrganizationCode req") auto

theorem extractOrganizationCode_accepts_exactly_witness:
  "extractOrganizationCode
     \<lparr> headerOrganizationCode = JUndefined, bodyOrganizationCode = JString (str ''ac''),
       queryOrganizationCode = JString (str ''ZZ''), organizationCode = None \<rparr>
   = Next \<lparr> headerOrganizationCode = JUndefined, bodyOrganizationCode = JString (str ''ac''),
            queryOrganizationCode = JString (str ''ZZ''),
            organizationCode = Some (str ''AC'') \<rparr>
   \<and> (\<exists>m. extractOrganizationCode
            \<lparr> headerOrganizationCode = JString (str ''A''),
              bodyOrganizationCode = JString (str ''ACME''),
              queryOrganizationCode = JUndefined, organizationCode = None \<rparr>
          = SendError 400 m)"
proof -
  let ?ok = "\<lparr> headerOrganizationCode = JUndefined, bodyOrganizationCode = JString (str ''ac''),
               queryOrganizationCode = JString (str ''ZZ''), organizationCode = None \<rparr>"
  let ?bad = "\<lparr> headerOrganizationCode = JString (str ''A''),
                bodyOrganizationCode = JString (str ''ACME''),
                queryOrganizationCode = JUndefined, organizationCode = None \<rparr>"
  have up: "toUpperCase (trim (str ''ac'')) = str ''AC''"
    "toUpperCase (trim (str ''A'')) = str ''A''"
    by code_simp+
  have pat: "orgCodePattern (str ''AC'')" "\<not> orgCodePattern (str ''A'')"
    by code_simp+
  have 1: "suppliedOrganizationCode ?ok = JString (str ''ac'')"
    and 2: "suppliedOrganizationCode ?bad = JString (str ''A'')"
    by (simp_all add: suppliedOrganizationCode_def)
  have "\<forall>r. extractOrganizationCode ?bad \<noteq> Next r"
    using extractOrganizationCode_accepts_exactly [of ?bad] 2 up pat by auto
  then show ?thesis
    using extractOrganizationCode_accepts_exactly
        [of ?ok "?ok\<lparr>organizationCode := Some (str ''AC'')\<rparr>"]
      extractOrganizationCode_accepts_exactly [of ?bad] 1 up pat
    by auto
qed

text \<open>
  Claim C5 as it is worded has the pattern matched after upper-casing alone. A code
  \<^verbatim>\<open>" ac"\<close> in the body does not match then, for its first character is a space, and yet
  the middleware accepts the request and stores \<^verbatim>\<open>"AC"\<close>.
\<close>

theorem extractOrganizationCode_untrimmed_counterexample:
  "\<not> orgCodePattern (toUpperCase (str '' ac''))
   \<and> extractOrganizationCode
       \<lparr> headerOrganizationCode = JUndefined, bodyOrganizationCode = JString (str '' ac''),
         queryOrganizationCode = JUndefined, organizationCode = None \<rparr>
     = Next \<lparr> headerOrganizationCode = JUndefined,
              bodyOrganizationCode = JString (str '' ac''),
              queryOrganizationCode = JUndefined, organizationCode = Some (str ''AC'') \<rparr>"
  by code_simp

text \<open>The trimming and the upper-casing are those of JavaScript: a code padded with
  U+00A0 is accepted, and so is the one-character code U+00DF, whose upper case is the
  two characters \<^verbatim>\<open>SS\<close>; the lengths that the pattern bounds are those of the
  normalized code.\<close>

lemma extractOrganizationCode_unicode:
  "extractOrganizationCode
     \<lparr> headerOrganizationCode = JString [160, 97, 99], bodyOrganizationCode = JUndefined,
       queryOrganizationCode = JUndefined, organizationCode = None \<rparr>
   = Next \<lparr> headerOrganizationCode = JString [160, 97, 99], bodyOrganizationCode = JUndefined,
            queryOrganizationCode = JUndefined, organizationCode = Some (str ''AC'') \<rparr>"
  "extractOrganizationCode
     \<lparr> headerOrganizationCode = JString [223], bodyOrganizationCode = JUndefined,
       queryOrganizationCode = JUndefined, organizationCode = None \<rparr>
   = Next \<lparr> headerOrganizationCode = JString [223], bodyOrganizationCode = JUndefined,
            queryOrganizationCode = JUndefined, organizationCode = Some (str ''SS'') \<rparr>"
  by code_simp+

section \<open>Collections\<close>

lemma newObjectId_fresh: "newObjectId ids \<notin> set ids"
proof
  assume "newObjectId ids \<in> set ids"
  then have "newObjectId ids \<le> Max (set (0 # ids))"
    by (intro Max_ge) auto
  then show False
    unfolding Max.set_eq_fold newObjectId_def by simp
qed

lemma updateFirst_distinct:
  "distinct (map k xs) \<Longrightarrow>
   updateFirst (\<lambda>x. k x = i) f xs = map (\<lambda>x. if k x = i then f x else x) xs"
proof (induction xs)
  case Nil
  then show ?case by simp
next
  case (Cons x xs)
  show ?case
  proof (cases "k x = i")
    case True
    with Cons.prems have "\<forall>y \<in> set xs. k y \<noteq> i" by (auto simp: image_iff)
    then have "map (\<lambda>x. if k x = i then f x else x) xs = xs"
      by (intro map_idI) auto
    with True show ?thesis by simp
  next
    case False
    with Cons show ?thesis by simp
  qed
qed

lemma find_map_same:
  "(\<And>x. x \<in> set xs \<Longrightarrow> P (g x) = P x) \<Longrightarrow> find P (map g xs) = map_option g (find P xs)"
  by (induction xs) auto

lemma map_key_same:
  "(\<And>x. x \<in> set xs \<Longrightarrow> k (g x) = k x) \<Longrightarrow> map k (map g xs) = map k xs"
  by (induction xs) auto

lemma find_append_last:
  "\<forall>x \<in> set xs. \<not> P x \<Longrightarrow> P y \<Longrightarrow> find P (xs @ [y]) = Some y"
  by (induction xs) auto

lemma find_key_distinct:
  "distinct (map k xs) \<Longrightarrow> x \<in> set xs \<Longrightarrow> find (\<lambda>y. k y = k x) xs = Some x"
  by (induction xs) (auto simp: image_iff)

lemma find_SomeD: "find P xs = Some x \<Longrightarrow> x \<in> set xs \<and> P x"
  by (induction xs) (auto split: if_splits)

lemma mod_cancel_int: "(t - (t + tz) mod D + tz) mod D = (0::int)"
proof -
  have "t - (t + tz) mod D + tz = (t + tz) div D * D"
    using div_mult_mod_eq [of "t + tz" D] by linarith
  then show ?thesis by simp
qed

lemma startOfLocalDay_idem: "startOfLocalDay tz (startOfLocalDay tz t) = startOfLocalDay tz t"
  unfolding startOfLocalDay_def using mod_cancel_int [of t tz 86400000] by simp

section \<open>Properties of the number model\<close>

text \<open>The exponent found is a lower bound of the magnitude, rounding errs by at most
  half a unit in the last place, and integers below \<open>2 ^ 53\<close> are their own doubles.\<close>

lemma bitLength_bounds:
  "0 < n \<Longrightarrow> 2 ^ (bitLength n - 1) \<le> n \<and> n < 2 ^ bitLength n"
proof (induction n rule: bitLength.induct)
  case (1 n)
  show ?case
  proof (cases "n div 2 = 0")
    case True
    with "1.prems" have "n = 1" by linarith
    then show ?thesis by (simp add: bitLength.simps)
  next
    case False
    with "1.prems" have pos: "0 < n div 2" by linarith
    define b where "b = bitLength (n div 2)"
    from "1.IH" "1.prems" pos have ih: "2 ^ (b - 1) \<le> n div 2" "n div 2 < 2 ^ b"
      by (simp_all add: b_def)
    from pos have "0 < b" unfolding b_def by (subst bitLength.simps) simp
    then have b: "(2::int) ^ b = 2 * 2 ^ (b - 1)"
      by (cases b) simp_all
    have len: "bitLength n = Suc b"
      using "1.prems" unfolding b_def by (subst bitLength.simps) simp
    have "2 * (n div 2) \<le> n" "n \<le> 2 * (n div 2) + 1" by linarith+
    with ih b show ?thesis unfolding len by simp
  qed
qed

lemma ilog2_lower:
  assumes "q \<noteq> 0"
  shows "2 powi (ilog2 q) \<le> \<bar>q\<bar>"
proof -
  obtain a b where qo: "quotient_of \<bar>q\<bar> = (a, b)" by (cases "quotient_of \<bar>q\<bar>")
  then have b: "0 < b" by (rule quotient_of_denom_pos)
  from qo have q: "\<bar>q\<bar> = of_int a / of_int b" by (rule quotient_of_div)
  from assms have "0 < \<bar>q\<bar>" by simp
  with q b have a: "0 < a" by (simp add: zero_less_divide_iff)
  define na where "na = bitLength a"
  define nb where "nb = bitLength b"
  define k where "k = int na - int nb"
  have il: "ilog2 q = (if 2 powi k \<le> \<bar>q\<bar> then k else k - 1)"
    by (simp add: ilog2_def qo Let_def na_def nb_def k_def)
  show ?thesis
  proof (cases "2 powi k \<le> \<bar>q\<bar>")
    case True
    with il show ?thesis by simp
  next
    case False
    from bitLength_bounds [OF a] have "2 ^ (na - 1) \<le> a" by (simp add: na_def)
    then have "(of_int (2 ^ (na - 1)) :: rat) \<le> of_int a" by (simp only: of_int_le_iff)
    then have lo: "(2::rat) ^ (na - 1) \<le> of_int a" by simp
    from bitLength_bounds [OF b] have "b \<le> 2 ^ nb" by (simp add: nb_def)
    then have "(of_int b :: rat) \<le> of_int (2 ^ nb)" by (simp only: of_int_le_iff)
    then have hi: "of_int b \<le> (2::rat) ^ nb" by simp
    from a have "0 < na" unfolding na_def by (subst bitLength.simps) simp
    then have "k - 1 = int (na - 1) - int nb" by (simp add: k_def)
    then have "(2::rat) powi (k - 1) = 2 ^ (na - 1) / 2 ^ nb"
      by (simp add: power_int_diff)
    also have "\<dots> \<le> of_int a / of_int b"
      using lo hi a b by (intro frac_le) simp_all
    finally show ?thesis using il False q by simp
  qed
qed

lemma roundHalfEven_error: "\<bar>of_int (roundHalfEven z) - z\<bar> \<le> 1 / 2"
proof -
  have "of_int \<lfloor>z\<rfloor> \<le> z" "z < of_int \<lfloor>z\<rfloor> + 1" by linarith+
  then show ?thesis
    by (auto simp: roundHalfEven_def Let_def)
qed

lemma roundHalfEven_of_int [simp]: "roundHalfEven (of_int k) = k"
  by (simp add: roundHalfEven_def)

lemma fl_error:
  "\<bar>fl q - q\<bar> \<le> \<bar>q\<bar> / 2 ^ 53"
proof (cases "q = 0")
  case True
  then show ?thesis by (simp add: fl_def)
next
  case False
  define u :: rat where "u = 2 powi (ilog2 q - 52)"
  have u: "0 < u" by (simp add: u_def)
  have "fl q - q = (of_int (roundHalfEven (q / u)) - q / u) * u"
    using False u by (simp add: fl_def u_def [symmetric] Let_def algebra_simps)
  then have "\<bar>fl q - q\<bar> = \<bar>of_int (roundHalfEven (q / u)) - q / u\<bar> * u"
    using u by (simp add: abs_mult)
  also have "\<dots> \<le> 1 / 2 * u"
    using roundHalfEven_error [of "q / u"] u by (intro mult_right_mono) simp_all
  also have "1 / 2 * u = 2 powi (ilog2 q) / 2 ^ 53"
  proof -
    have "(2::rat) powi (ilog2 q - 52) = 2 powi (ilog2 q) / 2 powi 52"
      by (simp add: power_int_diff)
    then show ?thesis by (simp add: u_def)
  qed
  also have "\<dots> \<le> \<bar>q\<bar> / 2 ^ 53"
    using ilog2_lower [OF False] by (intro divide_right_mono) simp_all
  finally show ?thesis .
qed

lemma fl_of_int_exact:
  assumes "\<bar>m\<bar> < 2 ^ 53"
  shows "fl (of_int m) = of_int m"
proof (cases "m = 0")
  case True
  then show ?thesis by (simp add: fl_def)
next
  case False
  define e where "e = ilog2 (of_int m)"
  from False have nz: "(of_int m :: rat) \<noteq> 0" by simp
  have "(2::rat) powi e \<le> \<bar>of_int m\<bar>"
    unfolding e_def by (rule ilog2_lower [OF nz])
  also have "\<bar>of_int m :: rat\<bar> < 2 ^ 53"
    using assms by (metis of_int_abs of_int_less_iff of_int_numeral of_int_power)
  finally have "(2::rat) powi e < 2 powi 53" by simp
  moreover have "(2::rat) powi 53 \<le> 2 powi e" if "53 \<le> e"
    using that by (intro power_int_increasing) simp_all
  ultimately have e: "e \<le> 52" by fastforce
  define j where "j = nat (52 - e)"
  have "(2::rat) powi (e - 52) = 1 / 2 ^ j"
  proof -
    from e have "e - 52 = - int j" by (simp add: j_def)
    then show ?thesis by (simp add: power_int_minus_divide)
  qed
  then have "of_int m / (2::rat) powi (e - 52) = of_int (m * 2 ^ j)"
    by simp
  then have "roundHalfEven (of_int m / (2::rat) powi (e - 52)) = m * 2 ^ j"
    by (simp only: roundHalfEven_of_int)
  then show ?thesis
    using nz \<open>(2::rat) powi (e - 52) = 1 / 2 ^ j\<close>
    by (simp add: fl_def e_def [symmetric] Let_def)
qed


lemma nearest_hundredth:
  fixes y :: rat and m :: int
  assumes close: "\<bar>y - of_int m / 36000\<bar> < 1 / 36000"
  shows "\<bar>of_int \<lfloor>y + 1 / 2\<rfloor> - of_int m / 36000 :: rat\<bar> \<le> 1 / 2"
proof -
  define n where "n = \<lfloor>y + 1 / 2\<rfloor>"
  define k where "k = 36000 * n - m"
  have fl: "of_int n \<le> y + 1 / 2" "y + 1 / 2 < of_int n + 1"
    unfolding n_def by linarith+
  define D :: rat where "D = of_int n - of_int m / 36000"
  have k: "(of_int k :: rat) = 36000 * D"
    by (simp add: k_def D_def algebra_simps)
  from close have c: "y - of_int m / 36000 < 1 / 36000" "- (1 / 36000) < y - of_int m / 36000"
    by linarith+
  have "(of_int k :: rat) < of_int 18001"
    unfolding k D_def using fl(1) c(1) by simp
  then have up: "k < 18001" by (simp only: of_int_less_iff)
  have "(of_int (- 18001) :: rat) < of_int k"
    unfolding k D_def using fl(2) c(2) by simp
  then have lo: "- 18001 < k" by (simp only: of_int_less_iff)
  from up lo have "\<bar>k\<bar> \<le> 18000" by linarith
  then have "\<bar>of_int k :: rat\<bar> \<le> of_int 18000"
    by (simp only: of_int_abs [symmetric] of_int_le_iff)
  then have "36000 * \<bar>D\<bar> \<le> 18000"
    unfolding k by (simp add: abs_mult)
  then have "\<bar>D\<bar> \<le> 1 / 2" by linarith
  then show ?thesis unfolding n_def [symmetric] D_def .
qed

lemma hundredths_close:
  fixes m :: int
  assumes pos: "0 < m" and small: "m < 2 ^ 51"
  shows "\<bar>jsMul (jsDiv (of_int m) 3600000) 100 - of_int m / 36000\<bar> < 1 / 36000"
proof -
  define X :: rat where "X = of_int m / 3600000"
  define x where "x = fl X"
  define y where "y = fl (x * 100)"
  have X: "0 < X" using pos by (simp add: X_def)
  have ex: "\<bar>x - X\<bar> \<le> X / 2 ^ 53"
    using fl_error [of X] X by (simp add: x_def)
  then have x2: "\<bar>x\<bar> \<le> 2 * X"
  proof -
    have "X / 2 ^ 53 \<le> X" using X by (simp add: divide_le_eq)
    with ex show ?thesis by linarith
  qed
  have ey: "\<bar>y - x * 100\<bar> \<le> \<bar>x * 100\<bar> / 2 ^ 53"
    unfolding y_def by (rule fl_error)
  have "\<bar>x * 100\<bar> / 2 ^ 53 \<le> 200 * X / 2 ^ 53"
    using x2 by (simp add: abs_mult divide_right_mono)
  with ey have ey': "\<bar>y - x * 100\<bar> \<le> 200 * X / 2 ^ 53" by linarith
  have "y - 100 * X = (y - x * 100) + 100 * (x - X)" by simp
  then have "\<bar>y - 100 * X\<bar> \<le> \<bar>y - x * 100\<bar> + \<bar>100 * (x - X)\<bar>"
    by (simp only: abs_triangle_ineq)
  also have "\<bar>100 * (x - X)\<bar> = 100 * \<bar>x - X\<bar>"
    by (subst abs_mult) simp
  finally have "\<bar>y - 100 * X\<bar> \<le> \<bar>y - x * 100\<bar> + 100 * \<bar>x - X\<bar>" .
  also have "\<bar>y - x * 100\<bar> + 100 * \<bar>x - X\<bar> \<le> 200 * X / 2 ^ 53 + 100 * (X / 2 ^ 53)"
    using ey' ex by (intro add_mono mult_left_mono) simp_all
  also have "200 * X / 2 ^ 53 + 100 * (X / 2 ^ 53) = 300 * X / 2 ^ 53" by simp
  also have "300 * X / 2 ^ 53 < 1 / 36000"
  proof -
    have "(of_int m :: rat) < of_int (2 ^ 51)"
      using small by (simp only: of_int_less_iff)
    then have "(of_int m :: rat) < 2 ^ 51" by simp
    then show ?thesis by (simp add: X_def)
  qed
  finally have "\<bar>y - 100 * X\<bar> < 1 / 36000" .
  moreover have "100 * X = of_int m / 36000" by (simp add: X_def)
  moreover have "jsMul (jsDiv (of_int m) 3600000) 100 = y"
    by (simp add: jsMul_def jsDiv_def y_def x_def X_def)
  ultimately show ?thesis by simp
qed

lemma totalHours_nearest:
  fixes t c :: int
  assumes pos: "c < t" and small: "t - c < 2 ^ 51"
  shows "\<exists>n. jsDiv (Math_round (jsMul (jsDiv (jsSub (of_int t) (of_int c)) 3600000) 100)) 100
               = fl (of_int n / 100)
             \<and> \<bar>of_int n - of_int (t - c) / 36000 :: rat\<bar> \<le> 1 / 2"
proof -
  have "\<bar>t - c\<bar> < 2 ^ 53" using pos small by simp
  then have sub: "jsSub (of_int t) (of_int c) = of_int (t - c)"
    using fl_of_int_exact [of "t - c"] by (simp add: jsSub_def)
  have close: "\<bar>jsMul (jsDiv (of_int (t - c)) 3600000) 100 - of_int (t - c) / 36000\<bar>
                 < 1 / 36000"
    using pos small by (intro hundredths_close) simp_all
  show ?thesis
    unfolding sub Math_round_def jsDiv_def [of "of_int _" 100]
    using nearest_hundredth [OF close] by blast
qed

section \<open>Properties of the attendance service\<close>

lemma inLocalDay_cong:
  "employeeId b = employeeId a \<Longrightarrow> date b = date a \<Longrightarrow> checkIn b = checkIn a \<Longrightarrow>
   inLocalDay tz day n b = inLocalDay tz day n a"
  by (simp add: inLocalDay_def)

text \<open>The validator of the notes lets through notes of at most 500 characters, and no
  notes at all.\<close>

lemma notesErrors_cases:
  "notesErrors n =
     (if (case n of Some s \<Rightarrow> 500 < jsLength s | None \<Rightarrow> False)
      then [(''notes'', ''Notes cannot exceed 500 characters'')] else [])"
  by (simp add: notesErrors_def maxLength_def atPath_def split: option.splits)

lemma markAttendance_reopen_result:
  assumes dist: "distinct (map attendance_id (attendances d))"
    and user: "User_findById d (data_employeeId attendanceData) = Inr (Some u)"
    and today: "getTodayAttendance tz d (data_employeeId attendanceData)
                  (startOfLocalDay tz (data_checkIn attendanceData)) = Inr (Some ex)"
  shows "markAttendance tz now d attendanceData by =
           (if notesErrors (writtenNotes attendanceData (Some ex)) = []
            then (Inr (attendanceUpdateData attendanceData ex by now ex),
                  d\<lparr>attendances :=
                     map (\<lambda>x. if attendance_id x = attendance_id ex
                              then attendanceUpdateData attendanceData ex by now ex else x)
                       (attendances d)\<rparr>)
            else (Inl (ValidationError (notesErrors (writtenNotes attendanceData (Some ex)))),
                  d))"
proof -
  obtain n where n: "data_employeeId attendanceData = Id n"
    using user by (cases "data_employeeId attendanceData") (auto simp: User_findById_def)
  from today n have f: "find (inLocalDay tz (startOfLocalDay tz (data_checkIn attendanceData)) n)
                          (attendances d) = Some ex"
    by (simp add: getTodayAttendance_def)
  then have mem: "ex \<in> set (attendances d)" by (simp add: find_SomeD)
  have byid: "find (\<lambda>a. attendance_id a = attendance_id ex) (attendances d) = Some ex"
    using find_key_distinct [OF dist mem] .
  let ?upd = "attendanceUpdateData attendanceData ex by now"
  have upd: "updateFirst (\<lambda>a. attendance_id a = attendance_id ex) ?upd (attendances d) =
             map (\<lambda>x. if attendance_id x = attendance_id ex then ?upd x else x) (attendances d)"
    using updateFirst_distinct [OF dist] .
  have one: "map (\<lambda>x. if attendance_id x = attendance_id ex then ?upd x else x) (attendances d) =
             map (\<lambda>x. if attendance_id x = attendance_id ex then ?upd ex else x) (attendances d)"
  proof (rule map_cong [OF refl])
    fix x assume "x \<in> set (attendances d)"
    then have "attendance_id x = attendance_id ex \<Longrightarrow> x = ex"
      using dist mem by (auto simp: distinct_map dest: inj_onD)
    then show "(if attendance_id x = attendance_id ex then ?upd x else x) =
               (if attendance_id x = attendance_id ex then ?upd ex else x)"
      by presburger
  qed
  show ?thesis
    unfolding markAttendance_def using user today byid
    by (simp add: Let_def upd one)
qed

lemma markAttendance_reopen:
  assumes "distinct (map attendance_id (attendances d))"
    and "User_findById d (data_employeeId attendanceData) = Inr (Some u)"
    and "getTodayAttendance tz d (data_employeeId attendanceData)
                  (startOfLocalDay tz (data_checkIn attendanceData)) = Inr (Some ex)"
    and "notesErrors (writtenNotes attendanceData (Some ex)) = []"
  shows "markAttendance tz now d attendanceData by =
           (Inr (attendanceUpdateData attendanceData ex by now ex),
            d\<lparr>attendances :=
                 map (\<lambda>x. if attendance_id x = attendance_id ex
                          then attendanceUpdateData attendanceData ex by now ex else x)
                   (attendances d)\<rparr>)"
  using markAttendance_reopen_result [OF assms(1-3), of now "by"] assms(4) by simp

lemma preSave_fields [simp]:
  "attendance_id (preSave a) = attendance_id a"
  "employeeId (preSave a) = employeeId a"
  "date (preSave a) = date a"
  "checkIn (preSave a) = checkIn a"
  "checkOut (preSave a) = checkOut a"
  "status (preSave a) = status a"
  "isLoggedIn (preSave a) = isLoggedIn a"
  "attendanceNotes (preSave a) = attendanceNotes a"
  by (simp_all add: preSave_def Let_def split: option.splits)

lemma created_fields [simp]:
  "attendance_id (created i e day dat by now) = i"
  "employeeId (created i e day dat by now) = e"
  "date (created i e day dat by now) = day"
  "checkIn (created i e day dat by now) = data_checkIn dat"
  "isLoggedIn (created i e day dat by now) = True"
  by (simp_all add: created_def)

lemma attendanceUpdateData_fields [simp]:
  "attendance_id (attendanceUpdateData dat ex by now a) = attendance_id a"
  "employeeId (attendanceUpdateData dat ex by now a) = employeeId a"
  "date (attendanceUpdateData dat ex by now a) = date a"
  "checkIn (attendanceUpdateData dat ex by now a) = checkIn a"
  "totalHours (attendanceUpdateData dat ex by now a) = totalHours a"
  "status (attendanceUpdateData dat ex by now a) = PRESENT"
  "isLoggedIn (attendanceUpdateData dat ex by now a) = True"
  "checkOut (attendanceUpdateData dat ex by now ex) = None"
  by (simp_all add: attendanceUpdateData_def)

lemma checkOutAssigned_fields [simp]:
  "attendance_id (checkOutAssigned a t by nt) = attendance_id a"
  "employeeId (checkOutAssigned a t by nt) = employeeId a"
  "date (checkOutAssigned a t by nt) = date a"
  "checkIn (checkOutAssigned a t by nt) = checkIn a"
  "checkOut (checkOutAssigned a t by nt) = Some t"
  "isLoggedIn (checkOutAssigned a t by nt) = False"
  "status (checkOutAssigned a t by nt) = status a"
  "totalHours (checkOutAssigned a t by nt) =
     Some (jsDiv (Math_round (jsMul (jsDiv (jsSub (of_int t) (of_int (checkIn a))) 3600000) 100)) 100)"
  "attendanceNotes (checkOutAssigned a t by nt) =
     (case nt of
        Some n \<Rightarrow> if n \<noteq> [] then Some (trim (checkoutNotes (attendanceNotes a) n))
                  else attendanceNotes a
      | None \<Rightarrow> attendanceNotes a)"
  by (simp_all add: checkOutAssigned_def Let_def split: option.splits)

lemma checkedOut_fields [simp]:
  "attendance_id (checkedOut now a t by nt) = attendance_id a"
  "employeeId (checkedOut now a t by nt) = employeeId a"
  "date (checkedOut now a t by nt) = date a"
  "checkIn (checkedOut now a t by nt) = checkIn a"
  "checkOut (checkedOut now a t by nt) = Some t"
  "isLoggedIn (checkedOut now a t by nt) = False"
  "status (checkedOut now a t by nt) = status a"
  by (simp_all add: checkedOut_def)

lemma checkedOut_totalHours:
  "totalHours (checkedOut now a t by nt) =
     Some (jsDiv (Math_round (jsMul (jsDiv (jsSub (of_int t) (of_int (checkIn a))) 3600000) 100)) 100)"
  by (simp add: checkedOut_def preSave_def Let_def split: option.splits)

text \<open>The hours of a session that ends after it began are not negative, so that their
  validator never fails in \<^verbatim>\<open>markCheckOut\<close>; what can fail is the validator of the notes.\<close>

lemma roundHalfEven_nonneg: "0 \<le> z \<Longrightarrow> 0 \<le> roundHalfEven z"
  by (simp add: roundHalfEven_def Let_def)

lemma fl_nonneg: "0 \<le> q \<Longrightarrow> 0 \<le> fl q"
  by (simp add: fl_def Let_def roundHalfEven_nonneg)

lemma sessionHours_nonneg:
  assumes "c \<le> t"
  shows "0 \<le> jsDiv (Math_round (jsMul (jsDiv (jsSub (of_int t) (of_int c)) 3600000) 100)) 100"
proof -
  have "0 \<le> jsSub (of_int t) (of_int c)"
    unfolding jsSub_def using assms by (intro fl_nonneg) simp
  then have "0 \<le> jsDiv (jsSub (of_int t) (of_int c)) 3600000"
    unfolding jsDiv_def by (intro fl_nonneg) simp
  then have "0 \<le> jsMul (jsDiv (jsSub (of_int t) (of_int c)) 3600000) 100"
    unfolding jsMul_def by (intro fl_nonneg) simp
  then have "0 \<le> Math_round (jsMul (jsDiv (jsSub (of_int t) (of_int c)) 3600000) 100)"
    by (simp add: Math_round_def)
  then show ?thesis
    unfolding jsDiv_def [of "Math_round _"] by (intro fl_nonneg) simp
qed

lemma checkOutErrors_eq:
  assumes "checkIn a \<le> t"
  shows "checkOutErrors (checkOutAssigned a t by nt) nt =
           (if checkoutNoteTooLong a nt
            then [(''notes'', ''Notes cannot exceed 500 characters'')] else [])"
proof -
  have "totalHoursErrors (totalHours (checkOutAssigned a t by nt)) = []"
    using sessionHours_nonneg [OF assms] by (simp add: totalHoursErrors_def)
  then show ?thesis
    by (simp add: checkOutErrors_def checkoutNoteTooLong_def notesErrors_cases
        split: option.splits)
qed

lemma markAttendance_create_result:
  assumes user: "User_findById d (data_employeeId attendanceData) = Inr (Some u)"
    and today: "getTodayAttendance tz d (data_employeeId attendanceData)
                  (startOfLocalDay tz (data_checkIn attendanceData)) = Inr None"
  shows "markAttendance tz now d attendanceData by =
           (if notesErrors (writtenNotes attendanceData None) = []
            then
              (Inr (created (newObjectId (map attendance_id (attendances d))) (user_id u)
                      (startOfLocalDay tz (data_checkIn attendanceData)) attendanceData by now),
               d\<lparr>attendances := attendances d @
                    [created (newObjectId (map attendance_id (attendances d))) (user_id u)
                      (startOfLocalDay tz (data_checkIn attendanceData)) attendanceData by now]\<rparr>)
            else (Inl (ValidationError (notesErrors (writtenNotes attendanceData None))), d))"
  unfolding markAttendance_def using user today by (simp add: Let_def)

lemma markAttendance_create:
  assumes "User_findById d (data_employeeId attendanceData) = Inr (Some u)"
    and "getTodayAttendance tz d (data_employeeId attendanceData)
                  (startOfLocalDay tz (data_checkIn attendanceData)) = Inr None"
    and "notesErrors (writtenNotes attendanceData None) = []"
  shows "markAttendance tz now d attendanceData by =
           (Inr (created (newObjectId (map attendance_id (attendances d))) (user_id u)
                   (startOfLocalDay tz (data_checkIn attendanceData)) attendanceData by now),
            d\<lparr>attendances := attendances d @
                 [created (newObjectId (map attendance_id (attendances d))) (user_id u)
                   (startOfLocalDay tz (data_checkIn attendanceData)) attendanceData by now]\<rparr>)"
  using markAttendance_create_result [OF assms(1,2), of now "by"] assms(3) by simp

lemma markAttendance_cases:
  assumes "User_findById d (data_employeeId attendanceData) = Inr (Some u)"
  obtains ex where "getTodayAttendance tz d (data_employeeId attendanceData)
                  (startOfLocalDay tz (data_checkIn attendanceData)) = Inr (Some ex)"
   | "getTodayAttendance tz d (data_employeeId attendanceData)
                  (startOfLocalDay tz (data_checkIn attendanceData)) = Inr None"
  using assms
  by (cases "data_employeeId attendanceData")
     (auto simp: getTodayAttendance_def User_findById_def)

lemma markAttendance_Inr_user:
  assumes "markAttendance tz now d attendanceData by = (Inr r, d')"
  obtains u n where "data_employeeId attendanceData = Id n"
    "User_findById d (Id n) = Inr (Some u)" "user_id u = n"
proof -
  from assms obtain u where u: "User_findById d (data_employeeId attendanceData) = Inr (Some u)"
    by (auto simp: markAttendance_def split: sum.splits option.splits)
  then obtain n where n: "data_employeeId attendanceData = Id n"
    by (cases "data_employeeId attendanceData") (auto simp: User_findById_def)
  with u have "user_id u = n"
    by (auto simp: User_findById_def dest: find_SomeD)
  with u n that show ?thesis by auto
qed

text \<open>After a successful clock-in the record returned is the one the day's query finds.\<close>

lemma markAttendance_post:
  assumes dist: "distinct (map attendance_id (attendances d))"
    and ok: "markAttendance tz now d attendanceData by = (Inr r, d')"
    and n: "data_employeeId attendanceData = Id n"
  shows "find (inLocalDay tz (startOfLocalDay tz (data_checkIn attendanceData)) n)
           (attendances d') = Some r
         \<and> distinct (map attendance_id (attendances d'))"
proof -
  let ?day = "startOfLocalDay tz (data_checkIn attendanceData)"
  let ?P = "inLocalDay tz ?day n"
  from ok obtain u where u: "User_findById d (data_employeeId attendanceData) = Inr (Some u)"
    by (auto simp: markAttendance_def split: sum.splits option.splits)
  with n have un: "user_id u = n"
    by (auto simp: User_findById_def dest: find_SomeD)
  from u show ?thesis
  proof (cases rule: markAttendance_cases [where tz = tz])
    case (1 ex)
    let ?r = "attendanceUpdateData attendanceData ex by now ex"
    let ?g = "\<lambda>x. if attendance_id x = attendance_id ex then ?r else x"
    from markAttendance_reopen_result [OF dist u 1, of now "by"] ok
    have r: "r = ?r" and d': "attendances d' = map ?g (attendances d)"
      by (auto split: if_splits)
    from 1 n have f: "find ?P (attendances d) = Some ex"
      by (simp add: getTodayAttendance_def)
    then have mem: "ex \<in> set (attendances d)" by (simp add: find_SomeD)
    have same: "\<And>x. x \<in> set (attendances d) \<Longrightarrow> ?P (?g x) = ?P x"
    proof -
      fix x assume "x \<in> set (attendances d)"
      then have "attendance_id x = attendance_id ex \<Longrightarrow> x = ex"
        using dist mem by (auto simp: distinct_map dest: inj_onD)
      then show "?P (?g x) = ?P x"
        by (auto simp: inLocalDay_cong [of ?r ex])
    qed
    have "find ?P (map ?g (attendances d)) = map_option ?g (find ?P (attendances d))"
      by (rule find_map_same) (rule same)
    with f have "find ?P (attendances d') = Some ?r" by (simp add: d')
    moreover have "map attendance_id (map ?g (attendances d)) = map attendance_id (attendances d)"
      by (rule map_key_same) simp
    ultimately show ?thesis using dist r d' by (simp del: map_map)
  next
    case 2
    let ?r = "created (newObjectId (map attendance_id (attendances d))) (user_id u) ?day
                attendanceData by now"
    from markAttendance_create_result [OF u 2, of now "by"] ok
    have r: "r = ?r" and d': "attendances d' = attendances d @ [?r]"
      by (auto split: if_splits)
    from 2 n have f: "find ?P (attendances d) = None"
      by (simp add: getTodayAttendance_def)
    have P: "?P ?r"
      by (simp add: inLocalDay_def Let_def un startOfLocalDay_idem)
    from f have "\<forall>x \<in> set (attendances d). \<not> ?P x"
      by (simp add: find_None_iff)
    then have "find ?P (attendances d @ [?r]) = Some ?r"
      using P by (rule find_append_last)
    moreover have "attendance_id ?r \<notin> set (map attendance_id (attendances d))"
      using newObjectId_fresh [of "map attendance_id (attendances d)"] by simp
    ultimately show ?thesis using dist r d' by simp
  qed
qed

lemma markCheckOut_result:
  assumes dist: "distinct (map attendance_id (attendances d))"
    and mem: "a \<in> set (attendances d)"
    and "open": "checkOut a = None"
    and later: "checkIn a < t"
  shows "markCheckOut now d (Id (attendance_id a)) t by nt =
           (if checkoutNoteTooLong a nt
            then (Inl (ValidationError [(''notes'', ''Notes cannot exceed 500 characters'')]), d)
            else
              (Inr (checkedOut now a t by nt),
               d\<lparr>attendances :=
                    map (\<lambda>x. if attendance_id x = attendance_id a
                             then checkedOut now a t by nt else x) (attendances d)\<rparr>))"
proof -
  have byid: "find (\<lambda>x. attendance_id x = attendance_id a) (attendances d) = Some a"
    using find_key_distinct [OF dist mem] .
  have errors: "checkOutErrors (checkOutAssigned a t by nt) nt =
           (if checkoutNoteTooLong a nt
            then [(''notes'', ''Notes cannot exceed 500 characters'')] else [])"
    using later by (intro checkOutErrors_eq) simp
  show ?thesis
    unfolding markCheckOut_def Attendance_findById_def
    using byid "open" later updateFirst_distinct [OF dist]
    by (simp add: Let_def errors)
qed

lemma markCheckOut_ok:
  assumes "distinct (map attendance_id (attendances d))"
    and "a \<in> set (attendances d)"
    and "checkOut a = None"
    and "checkIn a < t"
    and "\<not> checkoutNoteTooLong a nt"
  shows "markCheckOut now d (Id (attendance_id a)) t by nt =
           (Inr (checkedOut now a t by nt),
            d\<lparr>attendances :=
                 map (\<lambda>x. if attendance_id x = attendance_id a
                          then checkedOut now a t by nt else x) (attendances d)\<rparr>)"
  using markCheckOut_result [OF assms(1-4), of now "by" nt] assms(5) by simp

lemma markCheckOut_Inr:
  assumes dist: "distinct (map attendance_id (attendances d))"
    and mem: "a \<in> set (attendances d)"
    and ok: "markCheckOut now d (Id (attendance_id a)) t by nt = (Inr r, d')"
  shows "checkOut a = None \<and> checkIn a < t \<and> r = checkedOut now a t by nt
         \<and> attendances d' =
             map (\<lambda>x. if attendance_id x = attendance_id a then r else x) (attendances d)"
proof -
  have byid: "find (\<lambda>x. attendance_id x = attendance_id a) (attendances d) = Some a"
    using find_key_distinct [OF dist mem] .
  from ok byid have c: "checkOut a = None" "checkIn a < t"
    by (auto simp: markCheckOut_def Attendance_findById_def Let_def split: if_splits)
  from markCheckOut_result [OF dist mem c, of now "by" nt] ok show ?thesis
    using c by (auto split: if_splits)
qed

text \<open>
  Claim C1. Take a clock-in, the clock-out of the record it returned, and a second
  clock-in of the same employee on the same local day, all three successful, on a
  database whose attendance identifiers are distinct. The second clock-in returns the
  same record, and its \<^verbatim>\<open>checkIn\<close> is the one the record had after the first clock-in; when
  the day had no record before, that is the time of the first clock-in.
\<close>

theorem reopen_preserves_first_checkIn:
  assumes dist: "distinct (map attendance_id (attendances d0))"
    and in1: "markAttendance tz now1 d0 data1 by1 = (Inr r1, d1)"
    and out: "markCheckOut now2 d1 (Id (attendance_id r1)) t2 by2 note2 = (Inr r2, d2)"
    and in2: "markAttendance tz now3 d2 data3 by3 = (Inr r3, d3)"
    and same_employee: "data_employeeId data3 = data_employeeId data1"
    and same_day: "startOfLocalDay tz (data_checkIn data3) = startOfLocalDay tz (data_checkIn data1)"
  shows "attendance_id r3 = attendance_id r1 \<and> checkIn r3 = checkIn r1
         \<and> (getTodayAttendance tz d0 (data_employeeId data1)
               (startOfLocalDay tz (data_checkIn data1)) = Inr None
             \<longrightarrow> checkIn r3 = data_checkIn data1)"
proof -
  let ?day = "startOfLocalDay tz (data_checkIn data1)"
  from in1 obtain u n where n: "data_employeeId data1 = Id n"
    and u: "User_findById d0 (Id n) = Inr (Some u)"
    by (rule markAttendance_Inr_user)
  let ?P = "inLocalDay tz ?day n"
  from markAttendance_post [OF dist in1 n]
  have f1: "find ?P (attendances d1) = Some r1"
    and dist1: "distinct (map attendance_id (attendances d1))" by auto
  from f1 have mem1: "r1 \<in> set (attendances d1)" by (simp add: find_SomeD)
  let ?g = "\<lambda>x. if attendance_id x = attendance_id r1 then r2 else x"
  from markCheckOut_Inr [OF dist1 mem1 out]
  have r2: "r2 = checkedOut now2 r1 t2 by2 note2"
    and d2: "attendances d2 = map ?g (attendances d1)" by auto
  have same: "\<And>x. x \<in> set (attendances d1) \<Longrightarrow> ?P (?g x) = ?P x"
  proof -
    fix x assume "x \<in> set (attendances d1)"
    then have "attendance_id x = attendance_id r1 \<Longrightarrow> x = r1"
      using dist1 mem1 by (auto simp: distinct_map dest: inj_onD)
    then show "?P (?g x) = ?P x"
      by (auto simp: r2 inLocalDay_cong [of "checkedOut now2 r1 t2 by2 note2" r1])
  qed
  have "find ?P (map ?g (attendances d1)) = map_option ?g (find ?P (attendances d1))"
    by (rule find_map_same) (rule same)
  with f1 d2 have f2: "find ?P (attendances d2) = Some r2" by simp
  have "map attendance_id (map ?g (attendances d1)) = map attendance_id (attendances d1)"
    by (rule map_key_same) (simp add: r2)
  with dist1 d2 have dist2: "distinct (map attendance_id (attendances d2))"
    by (simp del: map_map)
  from in2 obtain u3 where u3: "User_findById d2 (data_employeeId data3) = Inr (Some u3)"
    by (auto simp: markAttendance_def split: sum.splits option.splits)
  from f2 n same_employee same_day
  have today: "getTodayAttendance tz d2 (data_employeeId data3)
                 (startOfLocalDay tz (data_checkIn data3)) = Inr (Some r2)"
    by (simp add: getTodayAttendance_def)
  from markAttendance_reopen_result [OF dist2 u3 today, of now3 by3] in2
  have r3: "r3 = attendanceUpdateData data3 r2 by3 now3 r2" by (simp split: if_splits)
  have ids: "attendance_id r3 = attendance_id r1" and ci: "checkIn r3 = checkIn r1"
    by (simp_all add: r3 r2)
  have "checkIn r1 = data_checkIn data1"
    if none: "getTodayAttendance tz d0 (data_employeeId data1) ?day = Inr None"
  proof -
    from u n have "User_findById d0 (data_employeeId data1) = Inr (Some u)" by simp
    from markAttendance_create_result [OF this none, of now1 by1] in1 show ?thesis
      by (auto split: if_splits)
  qed
  with ids ci show ?thesis by simp
qed

theorem reopen_preserves_first_checkIn_witness:
  "\<exists>r1 d1 r2 d2 r3 d3.
     markAttendance 0 32400000 sampleDb (clockIn 1 32400000) 1 = (Inr r1, d1)
     \<and> markCheckOut 46800000 d1 (Id (attendance_id r1)) 46800000 1 None = (Inr r2, d2)
     \<and> markAttendance 0 50400000 d2 (clockIn 1 50400000) 1 = (Inr r3, d3)
     \<and> checkOut r2 = Some 46800000 \<and> checkOut r3 = None
     \<and> attendance_id r3 = attendance_id r1 \<and> checkIn r3 = 32400000"
proof -
  let ?day = "startOfLocalDay 0 32400000"
  define r1 where "r1 = created 1 1 0 (clockIn 1 32400000) 1 32400000"
  define d1 where "d1 = sampleDb\<lparr>attendances := [r1]\<rparr>"
  define r2 where "r2 = checkedOut 46800000 r1 46800000 1 None"
  define d2 where "d2 = sampleDb\<lparr>attendances := [r2]\<rparr>"
  define r3 where "r3 = attendanceUpdateData (clockIn 1 50400000) r2 1 50400000 r2"
  define d3 where "d3 = sampleDb\<lparr>attendances := [r3]\<rparr>"
  have u: "\<And>t. User_findById sampleDb (data_employeeId (clockIn 1 t)) = Inr (Some asha)"
    by (simp add: User_findById_def sampleDb_def clockIn_def asha_def)
  have none: "getTodayAttendance 0 sampleDb (data_employeeId (clockIn 1 32400000))
                (startOfLocalDay 0 (data_checkIn (clockIn 1 32400000))) = Inr None"
    by (simp add: getTodayAttendance_def clockIn_def sampleDb_def)
  have fits: "notesErrors (writtenNotes (clockIn 1 32400000) None) = []"
    "notesErrors (writtenNotes (clockIn 1 50400000) (Some r2)) = []"
    by (simp_all add: notesErrors_def writtenNotes_def notesOr_def clockIn_def r2_def r1_def
        created_def checkedOut_def)
  have s1: "markAttendance 0 32400000 sampleDb (clockIn 1 32400000) 1 = (Inr r1, d1)"
    using markAttendance_create [OF u none fits(1), of 32400000 1]
    by (simp add: r1_def d1_def sampleDb_def newObjectId_def asha_def clockIn_def
        startOfLocalDay_def)
  have id1: "attendance_id r1 = 1" and ci1: "checkIn r1 = 32400000"
    and co1: "checkOut r1 = None"
    by (simp_all add: r1_def clockIn_def created_def)
  have s2: "markCheckOut 46800000 d1 (Id (attendance_id r1)) 46800000 1 None = (Inr r2, d2)"
    using markCheckOut_ok [of d1 r1 46800000 None 46800000 1]
    by (simp add: d1_def d2_def r2_def sampleDb_def ci1 co1 checkoutNoteTooLong_def)
  have u2: "User_findById d2 (data_employeeId (clockIn 1 50400000)) = Inr (Some asha)"
    by (simp add: d2_def User_findById_def sampleDb_def clockIn_def asha_def)
  have some: "getTodayAttendance 0 d2 (data_employeeId (clockIn 1 50400000))
                (startOfLocalDay 0 (data_checkIn (clockIn 1 50400000))) = Inr (Some r2)"
    by (simp add: getTodayAttendance_def clockIn_def d2_def inLocalDay_def startOfLocalDay_def
        r2_def r1_def Let_def)
  have s3: "markAttendance 0 50400000 d2 (clockIn 1 50400000) 1 = (Inr r3, d3)"
    using markAttendance_reopen [OF _ u2 some fits(2), of 50400000 1]
    by (simp add: d2_def d3_def r3_def r2_def)
  have "distinct (map attendance_id (attendances sampleDb))"
    by (simp add: sampleDb_def)
  from reopen_preserves_first_checkIn [OF this s1 s2 s3] none
  have "attendance_id r3 = attendance_id r1 \<and> checkIn r3 = 32400000"
    by (simp add: clockIn_def startOfLocalDay_def)
  moreover have "checkOut r2 = Some 46800000" "checkOut r3 = None"
    by (simp_all add: r2_def r3_def)
  ultimately show ?thesis using s1 s2 s3 by blast
qed



text \<open>
  Claim C6, as the code has it. \<^verbatim>\<open>markAttendance\<close> looks the employee up and asks nothing
  of the status of the user it finds. When the identifier is that of no user it fails
  with the 404 error, and when the identifier is malformed it fails with the cast error
  of the lookup, which is no 404; the database stays as it was. When the lookup finds a
  user, of whatever status, the clock-in succeeds, a repeated one on the same day
  included, unless the notes that it writes are longer than 500 characters: then it fails
  with the validation error and the database stays as it was.
\<close>

theorem markAttendance_checks_existence_only:
  "(User_findById d (data_employeeId attendanceData) = Inr None \<longrightarrow>
      markAttendance tz now d attendanceData by = (Inl (AppError ''Employee not found'' 404), d))
   \<and> (\<forall>m. data_employeeId attendanceData = Malformed m \<longrightarrow>
      markAttendance tz now d attendanceData by = (Inl (CastError m), d))
   \<and> (\<forall>u ex. User_findById d (data_employeeId attendanceData) = Inr (Some u) \<and>
             getTodayAttendance tz d (data_employeeId attendanceData)
               (startOfLocalDay tz (data_checkIn attendanceData)) = Inr ex \<longrightarrow>
        (notesErrors (writtenNotes attendanceData ex) = [] \<longrightarrow>
           (\<exists>r d'. markAttendance tz now d attendanceData by = (Inr r, d'))) \<and>
        (notesErrors (writtenNotes attendanceData ex) \<noteq> [] \<longrightarrow>
           markAttendance tz now d attendanceData by =
             (Inl (ValidationError [(''notes'', ''Notes cannot exceed 500 characters'')]), d)))"
proof (intro conjI allI impI)
  assume "User_findById d (data_employeeId attendanceData) = Inr None"
  then show "markAttendance tz now d attendanceData by =
               (Inl (AppError ''Employee not found'' 404), d)"
    by (simp add: markAttendance_def)
next
  fix m assume "data_employeeId attendanceData = Malformed m"
  then show "markAttendance tz now d attendanceData by = (Inl (CastError m), d)"
    by (simp add: markAttendance_def User_findById_def)
next
  fix u ex
  assume a: "User_findById d (data_employeeId attendanceData) = Inr (Some u) \<and>
             getTodayAttendance tz d (data_employeeId attendanceData)
               (startOfLocalDay tz (data_checkIn attendanceData)) = Inr ex"
    and fits: "notesErrors (writtenNotes attendanceData ex) = []"
  then obtain n where n: "data_employeeId attendanceData = Id n"
    by (cases "data_employeeId attendanceData") (auto simp: User_findById_def)
  show "\<exists>r d'. markAttendance tz now d attendanceData by = (Inr r, d')"
  proof (cases ex)
    case None
    with a fits show ?thesis
      by (simp add: markAttendance_def Let_def)
  next
    case (Some e)
    with a n have "e \<in> set (attendances d)"
      by (auto simp: getTodayAttendance_def dest: find_SomeD)
    then have "find (\<lambda>a. attendance_id a = attendance_id e) (attendances d) \<noteq> None"
      by (auto simp: find_None_iff)
    then obtain x where "find (\<lambda>a. attendance_id a = attendance_id e) (attendances d) = Some x"
      by auto
    with a fits Some show ?thesis
      by (simp add: markAttendance_def Let_def)
  qed
next
  fix u ex
  assume a: "User_findById d (data_employeeId attendanceData) = Inr (Some u) \<and>
             getTodayAttendance tz d (data_employeeId attendanceData)
               (startOfLocalDay tz (data_checkIn attendanceData)) = Inr ex"
    and long: "notesErrors (writtenNotes attendanceData ex) \<noteq> []"
  from long have "notesErrors (writtenNotes attendanceData ex) =
                    [(''notes'', ''Notes cannot exceed 500 characters'')]"
    using notesErrors_cases [of "writtenNotes attendanceData ex"] by (simp split: if_splits)
  with a show "markAttendance tz now d attendanceData by =
     (Inl (ValidationError [(''notes'', ''Notes cannot exceed 500 characters'')]), d)"
    by (cases ex) (simp_all add: markAttendance_def Let_def)
qed

theorem markAttendance_checks_existence_only_witness:
  "markAttendance 0 32400000 sampleDb (clockIn 9 32400000) 9 =
     (Inl (AppError ''Employee not found'' 404), sampleDb)
   \<and> markAttendance 0 32400000 sampleDb
       ((clockIn 2 32400000)\<lparr>data_employeeId := Malformed ''no ObjectId''\<rparr>) 2 =
     (Inl (CastError ''no ObjectId''), sampleDb)
   \<and> (\<exists>r d'. markAttendance 0 32400000 sampleDb (clockIn 2 32400000) 2 = (Inr r, d'))
   \<and> markAttendance 0 32400000 sampleDb
       ((clockIn 1 32400000)\<lparr>data_notes := Some longNote\<rparr>) 1 =
     (Inl (ValidationError [(''notes'', ''Notes cannot exceed 500 characters'')]), sampleDb)"
proof -
  let ?bad = "(clockIn 2 32400000)\<lparr>data_employeeId := Malformed ''no ObjectId''\<rparr>"
  let ?long = "(clockIn 1 32400000)\<lparr>data_notes := Some longNote\<rparr>"
  have 1: "User_findById sampleDb (data_employeeId (clockIn 9 32400000)) = Inr None"
    by (simp add: User_findById_def sampleDb_def clockIn_def asha_def ben_def cara_def dev_def)
  have 2: "User_findById sampleDb (data_employeeId (clockIn 2 32400000)) = Inr (Some ben)"
    "User_findById sampleDb (data_employeeId ?long) = Inr (Some asha)"
    by (simp_all add: User_findById_def sampleDb_def clockIn_def asha_def ben_def cara_def
        dev_def)
  have 3: "getTodayAttendance 0 sampleDb (data_employeeId (clockIn 2 32400000))
             (startOfLocalDay 0 (data_checkIn (clockIn 2 32400000))) = Inr None"
    "getTodayAttendance 0 sampleDb (data_employeeId ?long)
             (startOfLocalDay 0 (data_checkIn ?long)) = Inr None"
    by (simp_all add: getTodayAttendance_def sampleDb_def clockIn_def)
  have 4: "data_employeeId ?bad = Malformed ''no ObjectId''" by simp
  have fits: "notesErrors (writtenNotes (clockIn 2 32400000) None) = []"
    by code_simp
  have long: "notesErrors (writtenNotes ?long None) \<noteq> []"
    by code_simp
  show ?thesis
    using markAttendance_checks_existence_only [of sampleDb "clockIn 9 32400000" 0 32400000 9]
      markAttendance_checks_existence_only [of sampleDb ?bad 0 32400000 2]
      markAttendance_checks_existence_only [of sampleDb "clockIn 2 32400000" 0 32400000 2]
      markAttendance_checks_existence_only [of sampleDb ?long 0 32400000 1]
      1 2 3 4 fits long
    by blast
qed

text \<open>
  Claim C6 as it is worded has the clock-in of a user who is not active fail with the
  404 error, that of an identifier which resolves to no user fail with it too, and that
  of an existing active employee never rejected. Ben is inactive, and his clock-in
  creates a record. An identifier that is no ObjectId resolves to no user, and its
  clock-in fails with the cast error of the lookup, which does not carry the status 404.
  Asha is active, and her clock-in with a note of 501 characters is rejected.
\<close>

theorem markAttendance_inactive_counterexample:
  "user_status ben = INACTIVE \<and>
   markAttendance 0 32400000 sampleDb (clockIn 2 32400000) 2 =
     (Inr \<lparr> attendance_id = 1, employeeId = 2, date = 0, checkIn = 32400000, checkOut = None,
            totalHours = None, status = PRESENT, attendanceNotes = None, isLoggedIn = True,
            createdBy = 2, updatedBy = 2, createdAt = 32400000, updatedAt = 32400000 \<rparr>,
      sampleDb\<lparr>attendances :=
        [\<lparr> attendance_id = 1, employeeId = 2, date = 0, checkIn = 32400000, checkOut = None,
            totalHours = None, status = PRESENT, attendanceNotes = None, isLoggedIn = True,
            createdBy = 2, updatedBy = 2, createdAt = 32400000, updatedAt = 32400000 \<rparr>]\<rparr>)
   \<and> markAttendance 0 32400000 sampleDb
       ((clockIn 2 32400000)\<lparr>data_employeeId := Malformed ''no ObjectId''\<rparr>) 2 =
     (Inl (CastError ''no ObjectId''), sampleDb)
   \<and> failureStatus (Inl (CastError ''no ObjectId'') :: error + Attendance) = None
   \<and> user_status asha = ACTIVE
   \<and> markAttendance 0 32400000 sampleDb
       ((clockIn 1 32400000)\<lparr>data_notes := Some longNote\<rparr>) 1 =
     (Inl (ValidationError [(''notes'', ''Notes cannot exceed 500 characters'')]), sampleDb)"
proof -
  have long: "notesErrors (Some (trim longNote)) =
                [(''notes'', ''Notes cannot exceed 500 characters'')]"
    by code_simp
  show ?thesis
    by (simp add: markAttendance_def sampleDb_def clockIn_def User_findById_def asha_def ben_def
        getTodayAttendance_def created_def preSave_def newObjectId_def startOfLocalDay_def
        Let_def writtenNotes_def notesErrors_def [of None] failureStatus_def long)
qed

text \<open>
  Claim C2, as the code has it. For a stored record, \<^verbatim>\<open>markCheckOut\<close> fails with status
  400 and leaves the database as it was when the record has a \<^verbatim>\<open>checkOut\<close> already or the
  check-out time is not after \<^verbatim>\<open>checkIn\<close>. Otherwise it appends the check-out note, when
  there is one, to the notes of the record, and when the notes so formed are longer than
  500 characters it fails with the validation error of the schema and leaves the database
  as it was. In every other case it succeeds, stores the check-out time, sets
  \<^verbatim>\<open>isLoggedIn\<close> to false and keeps \<^verbatim>\<open>checkIn\<close>; \<^verbatim>\<open>totalHours\<close> is what the double arithmetic
  \<^verbatim>\<open>Math.round((ms / 3600000) * 100) / 100\<close> gives. For a session shorter than \<open>2 ^ 51\<close> ms
  that value is the double nearest to \<open>n / 100\<close> for an integer \<open>n\<close> that is nearest to the
  hours times 100 (at a tie either neighbour): the hours rounded to two decimals.
\<close>

theorem markCheckOut_ordering_and_hours:
  assumes dist: "distinct (map attendance_id (attendances d))"
    and mem: "a \<in> set (attendances d)"
  shows "(checkOut a \<noteq> None \<or> t \<le> checkIn a \<longrightarrow>
            (\<exists>msg. markCheckOut now d (Id (attendance_id a)) t by nt =
               (Inl (AppError msg 400), d)))
         \<and> (checkOut a = None \<and> checkIn a < t \<and> checkoutNoteTooLong a nt \<longrightarrow>
            markCheckOut now d (Id (attendance_id a)) t by nt =
              (Inl (ValidationError [(''notes'', ''Notes cannot exceed 500 characters'')]), d))
         \<and> (checkOut a = None \<and> checkIn a < t \<and> \<not> checkoutNoteTooLong a nt \<longrightarrow>
            (\<exists>r. markCheckOut now d (Id (attendance_id a)) t by nt =
                   (Inr r, d\<lparr>attendances :=
                              map (\<lambda>x. if attendance_id x = attendance_id a then r else x)
                                (attendances d)\<rparr>)
               \<and> checkIn r = checkIn a
               \<and> checkOut r = Some t
               \<and> isLoggedIn r = False
               \<and> totalHours r =
                   Some (jsDiv (Math_round (jsMul
                     (jsDiv (jsSub (of_int t) (of_int (checkIn a))) 3600000) 100)) 100)
               \<and> (t - checkIn a < 2 ^ 51 \<longrightarrow>
                    (\<exists>n. totalHours r = Some (fl (of_int n / 100))
                        \<and> \<bar>of_int n - of_int (t - checkIn a) / 36000 :: rat\<bar> \<le> 1 / 2))))"
proof (intro conjI impI)
  have byid: "Attendance_findById d (Id (attendance_id a)) = Inr (Some a)"
    using find_key_distinct [OF dist mem] by (simp add: Attendance_findById_def)
  assume "checkOut a \<noteq> None \<or> t \<le> checkIn a"
  then show "\<exists>msg. markCheckOut now d (Id (attendance_id a)) t by nt =
               (Inl (AppError msg 400), d)"
    using byid by (auto simp: markCheckOut_def)
next
  assume "checkOut a = None \<and> checkIn a < t \<and> checkoutNoteTooLong a nt"
  then show "markCheckOut now d (Id (attendance_id a)) t by nt =
              (Inl (ValidationError [(''notes'', ''Notes cannot exceed 500 characters'')]), d)"
    using markCheckOut_result [OF dist mem, of t now "by" nt] by simp
next
  assume ok: "checkOut a = None \<and> checkIn a < t \<and> \<not> checkoutNoteTooLong a nt"
  let ?r = "checkedOut now a t by nt"
  have res: "markCheckOut now d (Id (attendance_id a)) t by nt =
           (Inr ?r, d\<lparr>attendances :=
                 map (\<lambda>x. if attendance_id x = attendance_id a then ?r else x) (attendances d)\<rparr>)"
    using markCheckOut_ok [OF dist mem] ok by simp
  have hours: "totalHours ?r =
      Some (jsDiv (Math_round (jsMul
        (jsDiv (jsSub (of_int t) (of_int (checkIn a))) 3600000) 100)) 100)"
    by (rule checkedOut_totalHours)
  have near: "\<exists>n. totalHours ?r = Some (fl (of_int n / 100))
                \<and> \<bar>of_int n - of_int (t - checkIn a) / 36000 :: rat\<bar> \<le> 1 / 2"
    if "t - checkIn a < 2 ^ 51"
    unfolding hours using totalHours_nearest [of "checkIn a" t] ok that by simp
  show "\<exists>r. markCheckOut now d (Id (attendance_id a)) t by nt =
                   (Inr r, d\<lparr>attendances :=
                              map (\<lambda>x. if attendance_id x = attendance_id a then r else x)
                                (attendances d)\<rparr>)
               \<and> checkIn r = checkIn a
               \<and> checkOut r = Some t
               \<and> isLoggedIn r = False
               \<and> totalHours r =
                   Some (jsDiv (Math_round (jsMul
                     (jsDiv (jsSub (of_int t) (of_int (checkIn a))) 3600000) 100)) 100)
               \<and> (t - checkIn a < 2 ^ 51 \<longrightarrow>
                    (\<exists>n. totalHours r = Some (fl (of_int n / 100))
                        \<and> \<bar>of_int n - of_int (t - checkIn a) / 36000 :: rat\<bar> \<le> 1 / 2))"
    using res hours near by (intro exI [of _ ?r]) simp
qed

theorem markCheckOut_ordering_and_hours_witness:
  "(\<exists>msg. markCheckOut 46800000 (sampleDb\<lparr>attendances := [openRecord, lateRecord]\<rparr>) (Id 8)
           32400000 1 None =
           (Inl (AppError msg 400), sampleDb\<lparr>attendances := [openRecord, lateRecord]\<rparr>))
   \<and> (\<exists>msg. markCheckOut 64800000 (sampleDb\<lparr>attendances := [openRecord, lateRecord]\<rparr>) (Id 7)
           64800000 1 None =
           (Inl (AppError msg 400), sampleDb\<lparr>attendances := [openRecord, lateRecord]\<rparr>))
   \<and> markCheckOut 46800000 (sampleDb\<lparr>attendances := [openRecord, lateRecord]\<rparr>) (Id 8)
           46800000 1 (Some longNote) =
           (Inl (ValidationError [(''notes'', ''Notes cannot exceed 500 characters'')]),
            sampleDb\<lparr>attendances := [openRecord, lateRecord]\<rparr>)
   \<and> (\<exists>r. markCheckOut 46800000 (sampleDb\<lparr>attendances := [openRecord, lateRecord]\<rparr>) (Id 8)
            46800000 1 None =
            (Inr r, sampleDb\<lparr>attendances := [r, lateRecord]\<rparr>)
        \<and> checkIn r = 32400000 \<and> checkOut r = Some 46800000
        \<and> isLoggedIn r = False \<and> totalHours r = Some 4)"
proof -
  let ?d = "sampleDb\<lparr>attendances := [openRecord, lateRecord]\<rparr>"
  have dist: "distinct (map attendance_id (attendances ?d))"
    by (simp add: openRecord_def lateRecord_def)
  have mem: "openRecord \<in> set (attendances ?d)" "lateRecord \<in> set (attendances ?d)"
    by simp_all
  have o: "attendance_id openRecord = 8" "checkIn openRecord = 32400000"
    "checkOut openRecord = None"
    by (simp_all add: openRecord_def)
  have l: "attendance_id lateRecord = 7" "checkOut lateRecord = Some 46800000"
    by (simp_all add: lateRecord_def)
  have short: "\<not> checkoutNoteTooLong openRecord None"
    by (simp add: checkoutNoteTooLong_def)
  have long: "checkoutNoteTooLong openRecord (Some longNote)"
    by code_simp
  have 1: "\<exists>msg. markCheckOut 46800000 ?d (Id 8) 32400000 1 None = (Inl (AppError msg 400), ?d)"
    using markCheckOut_ordering_and_hours [OF dist mem(1), of 32400000 46800000 1 None]
    unfolding o by simp
  have 2: "\<exists>msg. markCheckOut 64800000 ?d (Id 7) 64800000 1 None = (Inl (AppError msg 400), ?d)"
    using markCheckOut_ordering_and_hours [OF dist mem(2), of 64800000 64800000 1 None]
    unfolding l by simp
  have 4: "markCheckOut 46800000 ?d (Id 8) 46800000 1 (Some longNote) =
             (Inl (ValidationError [(''notes'', ''Notes cannot exceed 500 characters'')]), ?d)"
    using markCheckOut_ordering_and_hours [OF dist mem(1), of 46800000 46800000 1 "Some longNote"]
      long
    unfolding o by simp
  from markCheckOut_ordering_and_hours [OF dist mem(1), of 46800000 46800000 1 None] short
  obtain r n where r: "markCheckOut 46800000 ?d (Id 8) 46800000 1 None =
        (Inr r, ?d\<lparr>attendances :=
                   map (\<lambda>x. if attendance_id x = 8 then r else x) (attendances ?d)\<rparr>)"
    and f: "checkIn r = 32400000" "checkOut r = Some 46800000" "isLoggedIn r = False"
    and h: "totalHours r = Some (fl (of_int n / 100))"
    and n: "\<bar>of_int n - of_int (46800000 - 32400000) / 36000 :: rat\<bar> \<le> 1 / 2"
    unfolding o by auto
  from n have "\<bar>of_int (n - 400) :: rat\<bar> \<le> 1 / 2" by simp
  then have "\<bar>of_int (n - 400) :: rat\<bar> < of_int 1" by simp
  then have "\<bar>n - 400\<bar> < 1" by (simp only: of_int_abs [symmetric] of_int_less_iff)
  then have "n = 400" by simp
  moreover have "fl 4 = 4"
    using fl_of_int_exact [of 4] by simp
  ultimately have four: "totalHours r = Some 4"
    using h by simp
  have "map (\<lambda>x. if attendance_id x = 8 then r else x) (attendances ?d) = [r, lateRecord]"
    by (simp add: openRecord_def lateRecord_def)
  with r have 3: "markCheckOut 46800000 ?d (Id 8) 46800000 1 None =
        (Inr r, sampleDb\<lparr>attendances := [r, lateRecord]\<rparr>)" by simp
  from 1 2 3 4 f four show ?thesis by blast
qed

text \<open>
  Claim C2 as it is worded has every check-out of an open record succeed when its time
  is after \<^verbatim>\<open>checkIn\<close>. The record of the 09:00 clock-in is open and 13:00 is after it, and
  yet the check-out with a note of 501 characters fails: \<^verbatim>\<open>attendance.save()\<close> refuses the
  notes, and the record stays open.
\<close>

theorem markCheckOut_long_note_counterexample:
  "checkOut openRecord = None \<and> checkIn openRecord < 46800000
   \<and> markCheckOut 46800000 (sampleDb\<lparr>attendances := [openRecord]\<rparr>) (Id 8)
           46800000 1 (Some longNote) =
        (Inl (ValidationError [(''notes'', ''Notes cannot exceed 500 characters'')]),
         sampleDb\<lparr>attendances := [openRecord]\<rparr>)"
proof -
  have long: "checkoutNoteTooLong openRecord (Some longNote)"
    by code_simp
  have o: "attendance_id openRecord = 8" "checkIn openRecord = 32400000"
    "checkOut openRecord = None"
    by (simp_all add: openRecord_def)
  show ?thesis
    using markCheckOut_result
      [of "sampleDb\<lparr>attendances := [openRecord]\<rparr>" openRecord 46800000 46800000 1
        "Some longNote"] long
    by (simp add: o)
qed

text \<open>
  Which neighbour a tie takes is decided by the double arithmetic, not by a rule on the
  exact hours: a session of 3618000 ms is 1.005 hours, the double nearest to 1.005 lies
  below it, and the hours stored are 1.
\<close>

lemma totalHours_tie_example:
  "jsDiv (Math_round (jsMul (jsDiv (jsSub 3618000 0) 3600000) 100)) 100 = 1"
  by code_simp

text \<open>
  The day of the specification's scenario: in at 09:00, out at 13:00, in again at 14:00,
  out at 18:00. There is one record at the end, from 09:00 to 18:00, and its hours are
  the nine from the first clock-in to the last clock-out, not the eight of the two
  sessions.
\<close>

lemma scenario_A:
  "(case markAttendance 0 32400000 sampleDb (clockIn 1 32400000) 1 of (_, d1) \<Rightarrow>
    case markCheckOut 46800000 d1 (Id 1) 46800000 1 None of (_, d2) \<Rightarrow>
    case markAttendance 0 50400000 d2 (clockIn 1 50400000) 1 of (_, d3) \<Rightarrow>
    case markCheckOut 64800000 d3 (Id 1) 64800000 1 None of (r, d4) \<Rightarrow>
      (map_sum id (\<lambda>a. (checkIn a, checkOut a, totalHours a, isLoggedIn a)) r,
       length (attendances d4)))
   = (Inr (32400000, Some 64800000, Some 9, False), 1)"
  by code_simp

section \<open>Properties of the role and user services\<close>

lemma removeFirst_distinct:
  "distinct (map k xs) \<Longrightarrow> removeFirst (\<lambda>x. k x = i) xs = filter (\<lambda>x. k x \<noteq> i) xs"
proof (induction xs)
  case Nil
  then show ?case by simp
next
  case (Cons x xs)
  show ?case
  proof (cases "k x = i")
    case True
    with Cons.prems have "\<forall>y \<in> set xs. k y \<noteq> i" by (auto simp: image_iff)
    then have "filter (\<lambda>x. k x \<noteq> i) xs = xs" by (simp add: filter_id_conv)
    with True show ?thesis by simp
  next
    case False
    with Cons show ?thesis by simp
  qed
qed

lemma find_key_org_distinct:
  "distinct (map k xs) \<Longrightarrow> x \<in> set xs \<Longrightarrow> Q x \<Longrightarrow>
   find (\<lambda>y. k y = k x \<and> Q y) xs = Some x"
  by (induction xs) (auto simp: image_iff)

lemma Role_findById_mem:
  "distinct (map role_id (roles d)) \<Longrightarrow> r \<in> set (roles d) \<Longrightarrow>
   Role_findById d (Id (role_id r)) = Inr (Some r)"
  by (simp add: Role_findById_def find_key_distinct)

lemma Role_findInOrganization_mem:
  "distinct (map role_id (roles d)) \<Longrightarrow> r \<in> set (roles d) \<Longrightarrow>
   role_organizationCode r = organizationCodeSetter code \<Longrightarrow>
   Role_findInOrganization d (Id (role_id r)) code = Inr (Some r)"
  using find_key_org_distinct
    [of role_id "roles d" r "\<lambda>y. role_organizationCode y = organizationCodeSetter code"]
  by (simp add: Role_findInOrganization_def)

lemma Role_findInOrganization_other:
  assumes "distinct (map role_id (roles d))" and "r \<in> set (roles d)"
    and "role_organizationCode r \<noteq> organizationCodeSetter code"
  shows "Role_findInOrganization d (Id (role_id r)) code = Inr None"
proof -
  have "\<forall>x \<in> set (roles d). \<not> (role_id x = role_id r \<and>
          role_organizationCode x = organizationCodeSetter code)"
    using assms by (auto simp: distinct_map dest: inj_onD)
  then show ?thesis
    by (simp add: Role_findInOrganization_def find_None_iff)
qed

text \<open>
  Claim C3, as the code has it. Let a role of the database be a system role.
  \<^verbatim>\<open>addPermissions\<close> and \<^verbatim>\<open>removePermissions\<close>, which look the role up by its identifier, fail
  with status 403 whoever calls. \<^verbatim>\<open>updateRole\<close> and \<^verbatim>\<open>deleteRole\<close> look it up by identifier and
  by the organization code of the call, trimmed and in upper case: they fail with status
  403 when that is the code of the role, and with status 404 when it is another code. In
  every case the database that comes back is the one that went in.
\<close>

theorem system_role_immutable:
  assumes dist: "distinct (map role_id (roles d))"
    and mem: "r \<in> set (roles d)"
    and sys: "isSystemRole r"
  shows "addPermissions d (Id (role_id r)) permissionIds =
              (Inl (ApiError ''Cannot modify system role permissions'' 403), d)
         \<and> removePermissions d (Id (role_id r)) permissionIds =
              (Inl (ApiError ''Cannot modify system role permissions'' 403), d)
         \<and> (role_organizationCode r = organizationCodeSetter (toUpperCase orgCode) \<longrightarrow>
            updateRole d (Id (role_id r)) updateData orgCode actor =
              (Inl (ApiError ''Cannot update system role'' 403), d)
            \<and> deleteRole d (Id (role_id r)) orgCode =
              (Inl (ApiError ''Cannot delete system role'' 403), d))
         \<and> (role_organizationCode r \<noteq> organizationCodeSetter (toUpperCase orgCode) \<longrightarrow>
            updateRole d (Id (role_id r)) updateData orgCode actor =
              (Inl (ApiError ''Role not found'' 404), d)
            \<and> deleteRole d (Id (role_id r)) orgCode =
              (Inl (ApiError ''Role not found'' 404), d))"
proof -
  have byId: "Role_findById d (Id (role_id r)) = Inr (Some r)"
    using Role_findById_mem [OF dist mem] .
  have inOrg: "Role_findInOrganization d (Id (role_id r)) (toUpperCase orgCode) = Inr (Some r)"
    if "role_organizationCode r = organizationCodeSetter (toUpperCase orgCode)"
    using Role_findInOrganization_mem [OF dist mem that] .
  have other: "Role_findInOrganization d (Id (role_id r)) (toUpperCase orgCode) = Inr None"
    if "role_organizationCode r \<noteq> organizationCodeSetter (toUpperCase orgCode)"
    using Role_findInOrganization_other [OF dist mem that] .
  show ?thesis
    using byId inOrg other sys
    by (auto simp: updateRole_def deleteRole_def addPermissions_def removePermissions_def)
qed

theorem system_role_immutable_witness:
  "updateRole sampleDb (Id 10)
     \<lparr> update_name = Some (str ''root''), update_displayName = None,
       update_description = None, update_level = Some 2, update_isActive = None \<rparr>
     (str ''acme'') (str ''3'') =
     (Inl (ApiError ''Cannot update system role'' 403), sampleDb)
   \<and> deleteRole sampleDb (Id 10) (str ''acme'') =
     (Inl (ApiError ''Cannot delete system role'' 403), sampleDb)
   \<and> addPermissions sampleDb (Id 10) [Id 100] =
     (Inl (ApiError ''Cannot modify system role permissions'' 403), sampleDb)
   \<and> removePermissions sampleDb (Id 10) [Id 100] =
     (Inl (ApiError ''Cannot modify system role permissions'' 403), sampleDb)
   \<and> deleteRole sampleDb (Id 10) (str ''widge'') =
     (Inl (ApiError ''Role not found'' 404), sampleDb)"
proof -
  have 1: "distinct (map role_id (roles sampleDb))"
    by (simp add: sampleDb_def adminRole_def staffRole_def recruiterRole_def)
  have 2: "adminRole \<in> set (roles sampleDb)" by (simp add: sampleDb_def)
  have 3: "isSystemRole adminRole" "role_id adminRole = 10" by (simp_all add: adminRole_def)
  have 4: "role_organizationCode adminRole = organizationCodeSetter (toUpperCase (str ''acme''))"
    "role_organizationCode adminRole \<noteq> organizationCodeSetter (toUpperCase (str ''widge''))"
    by code_simp+
  show ?thesis
    using system_role_immutable [OF 1 2 3(1), of "[Id 100]" "str ''acme''"]
      system_role_immutable [OF 1 2 3(1), of "[Id 100]" "str ''widge''"] 3(2) 4
    by simp
qed

text \<open>
  Claim C3 as it is worded has \<^verbatim>\<open>updateRole\<close> and \<^verbatim>\<open>deleteRole\<close> answer 403 for a system role
  whoever calls. The administrator role of ACME is a system role; called with the
  organization code of another tenant, both answer 404.
\<close>

theorem system_role_other_organization_counterexample:
  "isSystemRole adminRole \<and> role_id adminRole = 10
   \<and> find (\<lambda>r. role_id r = 10) (roles sampleDb) = Some adminRole
   \<and> updateRole sampleDb (Id 10)
       \<lparr> update_name = Some (str ''root''), update_displayName = None,
         update_description = None, update_level = Some 2, update_isActive = None \<rparr>
       (str ''WIDGE'') (str ''4'') =
     (Inl (ApiError ''Role not found'' 404), sampleDb)
   \<and> deleteRole sampleDb (Id 10) (str ''WIDGE'') =
     (Inl (ApiError ''Role not found'' 404), sampleDb)"
  by code_simp


lemma newRoleDocument_fields [simp]:
  "role_id (newRoleDocument i roleData code actor) = i"
  "name (newRoleDocument i roleData code actor) = trim (create_name roleData)"
  "displayName (newRoleDocument i roleData code actor) = trim (create_displayName roleData)"
  "description (newRoleDocument i roleData code actor) =
     map_option trim (create_description roleData)"
  "level (newRoleDocument i roleData code actor) = create_level roleData"
  "role_organizationCode (newRoleDocument i roleData code actor) = organizationCodeSetter code"
  "isSystemRole (newRoleDocument i roleData code actor) = False"
  "permissions (newRoleDocument i roleData code actor) = []"
  by (simp_all add: newRoleDocument_def)

text \<open>A role document passes the validators exactly when its name and its display name
  are not empty and at most 50 and 100 characters long, its description, if it has one,
  is at most 500 characters long, its level is from 1 to 100, and its organization code
  is not empty and at most 10 characters long.\<close>

lemma roleValidationErrors_empty:
  "(roleValidationErrors r = []) =
     (name r \<noteq> [] \<and> jsLength (name r) \<le> 50 \<and>
      displayName r \<noteq> [] \<and> jsLength (displayName r) \<le> 100 \<and>
      (\<forall>t. description r = Some t \<longrightarrow> jsLength t \<le> 500) \<and>
      1 \<le> level r \<and> level r \<le> 100 \<and>
      role_organizationCode r \<noteq> [] \<and> jsLength (role_organizationCode r) \<le> 10)"
  by (auto simp: roleValidationErrors_def nameErrors_def displayNameErrors_def
      descriptionErrors_def levelErrors_def organizationCodeErrors_def atPath_def
      requiredString_def maxLength_def split: option.splits)




text \<open>
  Claim C7. For a role that is not a system role, called with its organization code,
  \<^verbatim>\<open>deleteRole\<close> fails with status 400 and the number of holders in the message when a
  user of the organization has the role's level as \<^verbatim>\<open>role\<close>, and leaves the database as it
  was; when no user has, it succeeds and the role is gone. The organization of the call
  is the one whose code is the given code, trimmed and in upper case, which is the form
  in which the schemas store the codes of roles and of users.
\<close>

theorem deleteRole_referential_integrity:
  assumes dist: "distinct (map role_id (roles d))"
    and mem: "r \<in> set (roles d)"
    and nonsys: "\<not> isSystemRole r"
    and org: "role_organizationCode r = organizationCodeSetter (toUpperCase orgCode)"
  shows "((\<exists>u \<in> set (users d). role u = level r \<and>
             user_organizationCode u = organizationCodeSetter (toUpperCase orgCode)) \<longrightarrow>
           deleteRole d (Id (role_id r)) orgCode =
             (Inl (ApiError
                (''Cannot delete role that is assigned to '' @
                 showNat (length (filter (\<lambda>u. role u = level r \<and>
                            user_organizationCode u =
                              organizationCodeSetter (toUpperCase orgCode)) (users d))) @
                 '' users'') 400), d))
         \<and> ((\<forall>u \<in> set (users d). \<not> (role u = level r \<and>
                user_organizationCode u = organizationCodeSetter (toUpperCase orgCode))) \<longrightarrow>
           deleteRole d (Id (role_id r)) orgCode =
             (Inr (), d\<lparr>roles := filter (\<lambda>x. role_id x \<noteq> role_id r) (roles d)\<rparr>)
           \<and> r \<notin> set (filter (\<lambda>x. role_id x \<noteq> role_id r) (roles d)))"
proof -
  let ?code = "organizationCodeSetter (toUpperCase orgCode)"
  let ?holders = "filter (\<lambda>u. role u = level r \<and> user_organizationCode u = ?code) (users d)"
  have found: "Role_findInOrganization d (Id (role_id r)) (toUpperCase orgCode) = Inr (Some r)"
    using Role_findInOrganization_mem [OF dist mem org] .
  have some: "0 < length ?holders"
    if "\<exists>u \<in> set (users d). role u = level r \<and> user_organizationCode u = ?code"
    using that by (auto simp: filter_empty_conv)
  have none: "length ?holders = 0"
    if "\<forall>u \<in> set (users d). \<not> (role u = level r \<and> user_organizationCode u = ?code)"
    using that by (auto simp: filter_empty_conv)
  show ?thesis
    using found nonsys some none removeFirst_distinct [OF dist, of "role_id r"]
    by (auto simp: deleteRole_def Let_def simp del: length_0_conv length_greater_0_conv)
qed

theorem deleteRole_referential_integrity_witness:
  "deleteRole sampleDb (Id 11) (str ''ACME'') =
     (Inl (ApiError ''Cannot delete role that is assigned to 1 users'' 400), sampleDb)
   \<and> deleteRole sampleDb (Id 12) (str ''ACME'') =
     (Inr (), sampleDb\<lparr>roles := [adminRole, staffRole]\<rparr>)"
proof -
  have up: "organizationCodeSetter (toUpperCase (str ''ACME'')) = str ''ACME''" by code_simp
  have dist: "distinct (map role_id (roles sampleDb))"
    by (simp add: sampleDb_def adminRole_def staffRole_def recruiterRole_def)
  have s: "staffRole \<in> set (roles sampleDb)" "\<not> isSystemRole staffRole"
    "role_organizationCode staffRole = organizationCodeSetter (toUpperCase (str ''ACME''))"
    "role_id staffRole = 11"
    by (simp_all add: sampleDb_def staffRole_def up)
  have r: "recruiterRole \<in> set (roles sampleDb)" "\<not> isSystemRole recruiterRole"
    "role_organizationCode recruiterRole = organizationCodeSetter (toUpperCase (str ''ACME''))"
    "role_id recruiterRole = 12"
    by (simp_all add: sampleDb_def recruiterRole_def up)
  have one: "char_of (49::nat) = CHR ''1''" by code_simp
  have holders: "filter (\<lambda>u. role u = level staffRole \<and>
                    user_organizationCode u = str ''ACME'') (users sampleDb) = [asha]"
    by code_simp
  have nobody: "filter (\<lambda>u. role u = level recruiterRole \<and>
                    user_organizationCode u = str ''ACME'') (users sampleDb) = []"
    by code_simp
  have left: "filter (\<lambda>x. role_id x \<noteq> 12) (roles sampleDb) = [adminRole, staffRole]"
    by (simp add: sampleDb_def adminRole_def staffRole_def recruiterRole_def)
  have "asha \<in> set (users sampleDb)" "role asha = level staffRole"
    "user_organizationCode asha = str ''ACME''"
    by (simp_all add: sampleDb_def asha_def staffRole_def)
  then have somebody: "\<exists>u \<in> set (users sampleDb). role u = level staffRole \<and>
                         user_organizationCode u = str ''ACME''" by blast
  from nobody have nobody': "\<forall>u \<in> set (users sampleDb). \<not> (role u = level recruiterRole \<and>
                  user_organizationCode u = str ''ACME'')"
    by (simp add: filter_empty_conv)
  show ?thesis
    using deleteRole_referential_integrity [OF dist s(1-3)]
      deleteRole_referential_integrity [OF dist r(1-3)]
      somebody nobody'
    unfolding up s(4) r(4) holders left by (simp add: one)
qed

lemma set_map_filter:
  "set (List.map_filter f xs) = {y. \<exists>x \<in> set xs. f x = Some y}"
  by (induction xs) (auto split: option.splits)

text \<open>
  Claim C10. \<^verbatim>\<open>hasPermission\<close> is a total boolean function. It is true exactly when the
  lookup finds the role and one of the role's populated permissions has the name asked
  for; it is false when the lookup fails and when it finds no role. The populated
  permissions are the documents that the role's identifiers refer to.
\<close>

theorem hasPermission_total:
  "hasPermission d roleId permissionName =
     (\<exists>r. Role_findById d roleId = Inr (Some r) \<and>
          (\<exists>p \<in> set (populate d r). permission_name p = permissionName))
   \<and> ((\<exists>e. Role_findById d roleId = Inl e) \<longrightarrow> hasPermission d roleId permissionName = False)
   \<and> (Role_findById d roleId = Inr None \<longrightarrow> hasPermission d roleId permissionName = False)
   \<and> (\<forall>r p. p \<in> set (populate d r) \<longleftrightarrow>
         (\<exists>i \<in> set (permissions r).
            find (\<lambda>q. permission_id q = i) (permissionDocs d) = Some p))"
  by (auto simp: hasPermission_def list_ex_iff populate_def set_map_filter
      split: sum.splits option.splits)

theorem hasPermission_total_witness:
  "hasPermission sampleDb (Id 11) (str ''users:read'') = True
   \<and> hasPermission sampleDb (Id 11) (str ''users:create'') = False
   \<and> hasPermission sampleDb (Id 99) (str ''users:read'') = False
   \<and> hasPermission sampleDb (Malformed ''no ObjectId'') (str ''users:read'') = False"
proof -
  have 1: "Role_findById sampleDb (Id 11) = Inr (Some staffRole)"
    "Role_findById sampleDb (Id 99) = Inr None"
    "Role_findById sampleDb (Malformed ''no ObjectId'') = Inl (CastError ''no ObjectId'')"
    by (simp_all add: Role_findById_def sampleDb_def adminRole_def staffRole_def recruiterRole_def)
  have 2: "populate sampleDb staffRole = [usersRead]"
    by (simp add: populate_def sampleDb_def staffRole_def usersRead_def usersCreate_def
        List.map_filter_simps)
  have 3: "permission_name usersRead = str ''users:read''"
    "str ''users:read'' \<noteq> str ''users:create''"
    by code_simp+
  show ?thesis
    using hasPermission_total [of sampleDb "Id 11" "str ''users:read''"]
      hasPermission_total [of sampleDb "Id 11" "str ''users:create''"]
      hasPermission_total [of sampleDb "Id 99" "str ''users:read''"]
      hasPermission_total [of sampleDb "Malformed ''no ObjectId''" "str ''users:read''"]
    unfolding 1 by (simp add: 2 3)
qed

text \<open>
  Claim C8. \<^verbatim>\<open>getUsersAboveRole\<close> returns, each once, the summaries of the users of the
  organization that are active and have a role strictly below the given one; no summary
  returned has a role equal to or above it; the result is ordered by role and then by
  full name. The organization is the one whose code is the given code, trimmed and in
  upper case, which is the form in which the schema stores the code of a user: the
  query finds the users of ACME for \<^verbatim>\<open>"acme"\<close> as for \<^verbatim>\<open>"ACME"\<close>.
\<close>

theorem getUsersAboveRole_exact:
  "mset (getUsersAboveRole d r code) =
     mset (map summary
       (filter (\<lambda>u. role u < r \<and> user_organizationCode u = organizationCodeSetter code \<and>
                     user_status u = ACTIVE)
          (users d)))
   \<and> set (getUsersAboveRole d r code) =
       summary ` {u \<in> set (users d).
                    user_organizationCode u = organizationCodeSetter code \<and>
                    user_status u = ACTIVE \<and> role u < r}
   \<and> (\<forall>s \<in> set (getUsersAboveRole d r code). summary_role s < r)
   \<and> sorted (map (\<lambda>s. (summary_role s, summary_fullName s)) (getUsersAboveRole d r code))"
proof -
  let ?match = "filter (\<lambda>u. role u < r \<and> user_organizationCode u = organizationCodeSetter code \<and>
                             user_status u = ACTIVE) (users d)"
  have key: "(\<lambda>s. (summary_role s, summary_fullName s)) \<circ> summary = (\<lambda>u. (role u, fullName u))"
    by (auto simp: summary_def)
  have "sorted (map (\<lambda>u. (role u, fullName u)) (sort_key (\<lambda>u. (role u, fullName u)) ?match))"
    by (rule sorted_sort_key)
  then have 4: "sorted (map (\<lambda>s. (summary_role s, summary_fullName s))
                    (getUsersAboveRole d r code))"
    by (simp add: getUsersAboveRole_def key)
  have 1: "mset (getUsersAboveRole d r code) = mset (map summary ?match)"
    by (simp add: getUsersAboveRole_def)
  have 2: "set (getUsersAboveRole d r code) =
       summary ` {u \<in> set (users d).
                    user_organizationCode u = organizationCodeSetter code \<and>
                    user_status u = ACTIVE \<and> role u < r}"
    by (auto simp: getUsersAboveRole_def)
  have 3: "\<forall>s \<in> set (getUsersAboveRole d r code). summary_role s < r"
    unfolding 2 by (auto simp: summary_def)
  from 1 2 3 4 show ?thesis by blast
qed

theorem getUsersAboveRole_exact_witness:
  "getUsersAboveRole sampleDb 5 (str ''ACME'') =
     [\<lparr> userId = 3, summary_email = str ''cara@acme.test'', summary_fullName = str ''Cara'',
        summary_role = 2 \<rparr>]
   \<and> getUsersAboveRole sampleDb 5 (str '' acme'') =
     [\<lparr> userId = 3, summary_email = str ''cara@acme.test'', summary_fullName = str ''Cara'',
        summary_role = 2 \<rparr>]"
proof -
  have f: "filter (\<lambda>u. role u < 5 \<and>
                        user_organizationCode u = organizationCodeSetter (str ''ACME'') \<and>
                        user_status u = ACTIVE) (users sampleDb) = [cara]"
    "filter (\<lambda>u. role u < 5 \<and>
                        user_organizationCode u = organizationCodeSetter (str '' acme'') \<and>
                        user_status u = ACTIVE) (users sampleDb) = [cara]"
    by code_simp+
  from getUsersAboveRole_exact [of sampleDb 5 "str ''ACME''"]
    getUsersAboveRole_exact [of sampleDb 5 "str '' acme''"]
  have "mset (getUsersAboveRole sampleDb 5 (str ''ACME'')) = {#summary cara#}"
    "mset (getUsersAboveRole sampleDb 5 (str '' acme'')) = {#summary cara#}"
    unfolding f by simp_all
  then show ?thesis
    by (simp add: summary_def cara_def)
qed

end
